theory Spec2Isabelle
  imports Main "HOL-Library.Word"
begin

unbundle bit_operations_syntax

section \<open>Strings and host numbers\<close>

text \<open>
  A JavaScript string is a sequence of 16-bit code units; the regular expressions of the
  source carry no \<open>u\<close> flag, so they work on code units as well.
\<close>

type_synonym jschar = "16 word"
type_synonym jsstring = "jschar list"

definition str :: "string \<Rightarrow> jsstring" where
  "str = map of_char"

subsection \<open>\<open>SerializationFormatToken\<close>\<close>

definition TYPE_SEPERATOR :: jschar where "TYPE_SEPERATOR = of_char CHR ''|''"
definition TYPE_CUSTOM_CLASS_SPECIFIER :: jschar where "TYPE_CUSTOM_CLASS_SPECIFIER = of_char CHR ''$''"
definition REFERENCE_POINTER :: jschar where "REFERENCE_POINTER = of_char CHR ''#''"
definition REFERENCE_DECLARARION_S :: jschar where "REFERENCE_DECLARARION_S = of_char CHR ''@''"
definition REFERENCE_DECLARATION_E :: jschar where "REFERENCE_DECLARATION_E = of_char CHR ''=''"
definition PROPERTY_ACCESSABILITY :: jschar where "PROPERTY_ACCESSABILITY = of_char CHR ''%''"
definition KEY_VALUE_SEPERATOR :: jschar where "KEY_VALUE_SEPERATOR = of_char CHR '':''"
definition KEY_INDEX_S :: jschar where "KEY_INDEX_S = of_char CHR ''[''"
definition KEY_INDEX_E :: jschar where "KEY_INDEX_E = of_char CHR '']''"
definition ENTRIED_VALUE_S :: jschar where "ENTRIED_VALUE_S = of_char CHR ''{''"
definition ENTRIED_VALUE_E :: jschar where "ENTRIED_VALUE_E = of_char CHR ''}''"
definition ENTRY_SEPERATOR :: jschar where "ENTRY_SEPERATOR = of_char CHR '',''"
definition ESCAPE_S :: jschar where "ESCAPE_S = of_char CHR ''&''"
definition ESCAPE_E :: jschar where "ESCAPE_E = of_char CHR '';''"
definition DEPENDENCIES_S :: jsstring where "DEPENDENCIES_S = str ''![''"
definition DEPENDENDIES_E :: jsstring where "DEPENDENDIES_E = str '']!''"
definition FUNCTION_NAME_SEPERATOR :: jschar where "FUNCTION_NAME_SEPERATOR = of_char CHR ''~''"

lemmas token_defs =
  TYPE_SEPERATOR_def TYPE_CUSTOM_CLASS_SPECIFIER_def REFERENCE_POINTER_def
  REFERENCE_DECLARARION_S_def REFERENCE_DECLARATION_E_def PROPERTY_ACCESSABILITY_def
  KEY_VALUE_SEPERATOR_def KEY_INDEX_S_def KEY_INDEX_E_def ENTRIED_VALUE_S_def
  ENTRIED_VALUE_E_def ENTRY_SEPERATOR_def ESCAPE_S_def ESCAPE_E_def DEPENDENCIES_S_def
  DEPENDENDIES_E_def FUNCTION_NAME_SEPERATOR_def

subsection \<open>Decimal digits, \<open>Number\<close> on digit strings, \<open>toString\<close> on indices\<close>

text \<open>The class \<open>\d\<close> of a JavaScript regular expression: the ten ASCII digits.\<close>

definition isDigit :: "jschar \<Rightarrow> bool" where
  "isDigit c \<longleftrightarrow> 48 \<le> c \<and> c \<le> 57"

definition digit_value :: "jschar \<Rightarrow> nat" where
  "digit_value c = unat c - 48"

definition decimal_value :: "jsstring \<Rightarrow> nat" where
  "decimal_value ds = foldl (\<lambda>a c. 10 * a + digit_value c) 0 ds"

fun bit_length :: "nat \<Rightarrow> nat" where
  "bit_length n = (if n = 0 then 0 else Suc (bit_length (n div 2)))"

declare bit_length.simps [simp del]

text \<open>
  A Number is an IEEE 754 double. A non-negative integer below \<open>2 ^ 53\<close>, that is of at
  most 53 bits, is a double as it is; a larger one is rounded to 53 significant bits, ties to even, and from
  \<open>2 ^ 1024\<close> on the result is \<open>Infinity\<close>, which the value \<open>2 ^ 1024\<close> (not a finite
  double) stands for here.
\<close>

definition round_double :: "nat \<Rightarrow> nat" where
  "round_double n =
     (if bit_length n \<le> 53 then n
      else let sh = bit_length n - 53;
               q = n div 2 ^ sh;
               r = n mod 2 ^ sh;
               half = 2 ^ (sh - 1);
               q' = (if half < r \<or> (r = half \<and> odd q) then q + 1 else q);
               m = q' * 2 ^ sh
           in if 2 ^ 1024 \<le> m then 2 ^ 1024 else m)"

text \<open>\<open>Number(match)\<close> where the regular expression made \<open>match\<close> a run of digits.\<close>

definition Number_of_digits :: "jsstring \<Rightarrow> nat" where
  "Number_of_digits ds = round_double (decimal_value ds)"

text \<open>\<open>String.fromCharCode\<close>: the argument modulo \<open>2 ^ 16\<close> (\<open>Infinity\<close> gives 0).\<close>

definition fromCharCode :: "nat \<Rightarrow> jschar" where
  "fromCharCode n = of_nat n"

definition digit_char :: "nat \<Rightarrow> jschar" where
  "digit_char d = of_nat (48 + d)"

text \<open>
  The string of a non-negative integer that is an exact double below \<open>10 ^ 21\<close>
  (reference ids, char codes, bitflags, array indices): its decimal digits.
\<close>

fun nat_toString :: "nat \<Rightarrow> jsstring" where
  "nat_toString n = (if n < 10 then [digit_char n] else nat_toString (n div 10) @ [digit_char (n mod 10)])"

declare nat_toString.simps [simp del]

section \<open>The reserved-character codec\<close>

text \<open>\<open>Serializer.RESERVED_CHARACTERS\<close>; \<open>RESERVED_REGEX\<close> is the alternation of these.\<close>

definition RESERVED_CHARACTERS :: "jschar list" where
  "RESERVED_CHARACTERS = str ''&;!@#%[]{}|,=$:~''"

text \<open>
  \<open>Serializer.escape\<close>: \<open>string.replace(RESERVED_REGEX, f)\<close> with a global regular
  expression whose every match is one reserved code unit; \<open>escape_char\<close> is the
  replacement \<open>f\<close> on a match and the identity on any other code unit.
\<close>

definition escape_char :: "jschar \<Rightarrow> jsstring" where
  "escape_char c =
     (if c \<in> set RESERVED_CHARACTERS then ESCAPE_S # nat_toString (unat c) @ [ESCAPE_E]
      else [c])"

definition escape :: "jsstring \<Rightarrow> jsstring" where
  "escape s = concat (map escape_char s)"

text \<open>
  \<open>Deserializer.unescape\<close>: a global replace of \<open>&(\d+);\<close>. The scan goes left to right;
  at an ampersand the match takes the longest run of digits, which must be non-empty and
  followed by a semicolon (a shorter run is followed by a digit, so backtracking finds
  nothing else); the search resumes after the match.
\<close>

function unescape :: "jsstring \<Rightarrow> jsstring" where
  "unescape [] = []"
| "unescape (c # cs) =
     (let ds = takeWhile isDigit cs; rest = dropWhile isDigit cs
      in if c = ESCAPE_S \<and> ds \<noteq> [] \<and> rest \<noteq> [] \<and> hd rest = ESCAPE_E
         then fromCharCode (Number_of_digits ds) # unescape (tl rest)
         else c # unescape cs)"
  by pat_completeness auto
termination
proof (relation "measure length")
  fix c :: jschar and cs x xa
  assume "xa = dropWhile isDigit cs"
  then have "length (tl xa) \<le> length cs"
    using length_dropWhile_le [of isDigit cs] by simp
  then show "(tl xa, c # cs) \<in> measure length" by simp
qed simp_all

text \<open>
  The reserved characters of a string all lie inside escape sequences
  \<open>&<digits>;\<close>: read from the left, an ampersand opens a sequence of at least one digit
  closed by a semicolon, and no other reserved character occurs outside such a sequence.
\<close>

function reserved_only_in_escapes :: "jsstring \<Rightarrow> bool" where
  "reserved_only_in_escapes [] = True"
| "reserved_only_in_escapes (c # cs) =
     (let ds = takeWhile isDigit cs; rest = dropWhile isDigit cs
      in if c = ESCAPE_S
         then ds \<noteq> [] \<and> rest \<noteq> [] \<and> hd rest = ESCAPE_E \<and> reserved_only_in_escapes (tl rest)
         else c \<notin> set RESERVED_CHARACTERS \<and> reserved_only_in_escapes cs)"
  by pat_completeness auto
termination
proof (relation "measure length")
  fix c :: jschar and cs x xa
  assume "xa = dropWhile isDigit cs"
  then have "length (tl xa) \<le> length cs"
    using length_dropWhile_le [of isDigit cs] by simp
  then show "(tl xa, c # cs) \<in> measure length" by simp
qed simp_all

section \<open>Errors\<close>

text \<open>
  Every \<open>throw\<close> of the source is a value. The messages of \<open>DeserializerError\<close> and
  \<open>SerializerError\<close> are told apart by constructors; \<open>BitflagError\<close> is the plain
  \<open>Error\<close> that \<open>Bitflag.to32bit\<close> throws, \<open>SerdeError\<close> the one of \<open>Type\<close>,
  \<open>TypeError\<close> and \<open>SyntaxError\<close> those of the host. The last two constructors are no
  errors of the program: \<open>NotModelled\<close> marks a step into host behaviour that this theory
  does not describe, \<open>OutOfFuel\<close> a recursion cut off by its bound.
\<close>

datatype deserializer_error =
    DependencyDoesNotExist
  | ValueExpected
  | UnknownType jsstring
  | ReferenceNotInitialized nat
  | FunctionDeserializationDisabled
  | DependencyListNotClosed
  | DependencyListNeverOpened
  | DependencyListedTwice jsstring
  | DependencyNotProvided jsstring
  | LacksCurlyBrackets
  | NonKeyValuePair nat
  | InvalidBoolean
  | DescriptorNotInferable
  | ReferenceDigitsMissing
  | AccessabilityOmitted

datatype serializer_error =
    PropertyDoesNotExist
  | NonWellKnownSymbol
  | FunctionSerializationDisabled
  | NotAFunction
  | NotADate
  | MetadataUnsupported

datatype error =
    DeserializerError deserializer_error
  | SerializerError serializer_error
  | SerdeError
  | BitflagError
  | TypeError
  | SyntaxError
  | NotModelled
  | OutOfFuel

subsection \<open>String primitives of the host\<close>

definition INDEX_NOT_FOUND :: int where "INDEX_NOT_FOUND = - 1"
definition INDEX_START :: int where "INDEX_START = 0"

text \<open>\<open>indexOf\<close> and \<open>lastIndexOf\<close> with a pattern of one code unit.\<close>

definition indexOf :: "jsstring \<Rightarrow> jschar \<Rightarrow> int" where
  "indexOf s c = (if c \<in> set s then int (length (takeWhile (\<lambda>x. x \<noteq> c) s)) else - 1)"

definition lastIndexOf :: "jsstring \<Rightarrow> jschar \<Rightarrow> int" where
  "lastIndexOf s c =
     (if c \<in> set s then int (length s) - 1 - int (length (takeWhile (\<lambda>x. x \<noteq> c) (rev s)))
      else - 1)"

text \<open>\<open>slice\<close>: a negative index counts from the end, and both are clamped to the string.\<close>

definition clamp_index :: "int \<Rightarrow> nat \<Rightarrow> nat" where
  "clamp_index i len = (if i < 0 then nat (max (int len + i) 0) else min (nat i) len)"

definition slice :: "jsstring \<Rightarrow> int \<Rightarrow> int \<Rightarrow> jsstring" where
  "slice s start stop =
     (let from = clamp_index start (length s); to = clamp_index stop (length s)
      in take (to - from) (drop from s))"

definition slice_from :: "jsstring \<Rightarrow> int \<Rightarrow> jsstring" where
  "slice_from s start = drop (clamp_index start (length s)) s"

section \<open>The entry tokenizer (\<open>Deserializer.extractEntries\<close>)\<close>

text \<open>
  The local variables of \<open>extractEntries\<close>. An element of \<open>output\<close> (here \<open>outputs\<close>) is a copy of a
  \<open>buffer_2\<close> of length two, kept here as a pair.
\<close>

record tokenizer =
  buffer_1 :: jsstring
  buffer_2 :: "jsstring list"
  depth :: int
  outputs :: "(jsstring \<times> jsstring) list"

definition tokenizer_start :: tokenizer where
  "tokenizer_start = \<lparr>buffer_1 = [], buffer_2 = [], depth = 0, outputs = []\<rparr>"

definition flush1 :: "tokenizer \<Rightarrow> tokenizer" where
  "flush1 t =
     (if length (buffer_1 t) > 0 then t\<lparr>buffer_2 := buffer_2 t @ [buffer_1 t], buffer_1 := []\<rparr>
      else t)"

definition flush2 :: "tokenizer \<Rightarrow> error + tokenizer" where
  "flush2 t =
     (if length (buffer_2 t) = 0 then Inr t
      else if length (buffer_2 t) \<noteq> 2
        then Inl (DeserializerError (NonKeyValuePair (length (buffer_2 t))))
      else Inr (t\<lparr>outputs := outputs t @ [(buffer_2 t ! 0, buffer_2 t ! 1)], buffer_2 := []\<rparr>))"

text \<open>
  The body of the \<open>for\<close> loop. The loop iterates over code points, so a surrogate pair
  arrives as one two-unit string; it is pushed and joined like any other character, which
  is what pushing its two units one after the other gives.
\<close>

definition scan_character :: "jschar \<Rightarrow> tokenizer \<Rightarrow> error + tokenizer" where
  "scan_character character t =
     (if character = ENTRIED_VALUE_S \<or> character = ENTRIED_VALUE_E
      then Inr (t\<lparr>depth := depth t + (if character = ENTRIED_VALUE_S then 1 else - 1),
                   buffer_1 := buffer_1 t @ [character]\<rparr>)
      else if character = KEY_VALUE_SEPERATOR
      then (if depth t = 0 then Inr (flush1 t)
            else Inr (t\<lparr>buffer_1 := buffer_1 t @ [character]\<rparr>))
      else if character = ENTRY_SEPERATOR
      then (if depth t = 0 then flush2 (flush1 t)
            else Inr (t\<lparr>buffer_1 := buffer_1 t @ [character]\<rparr>))
      else Inr (t\<lparr>buffer_1 := buffer_1 t @ [character]\<rparr>))"

fun scan_interior :: "jsstring \<Rightarrow> tokenizer \<Rightarrow> error + tokenizer" where
  "scan_interior [] t = Inr t"
| "scan_interior (character # rest) t =
     (case scan_character character t of
        Inl e \<Rightarrow> Inl e
      | Inr t' \<Rightarrow> scan_interior rest t')"

text \<open>
  \<open>str\<close> is \<open>indexOf('{') + 1\<close>, so it is never \<open>-1\<close>: without an opening bracket the
  interior starts at index 0. The closing check \<open>output.some(...)\<close> cannot fire, every
  element of \<open>output\<close> having come through \<open>flush2\<close>.
\<close>

definition extractEntries :: "jsstring \<Rightarrow> error + (jsstring \<times> jsstring) list" where
  "extractEntries serialized =
     (let strt = indexOf serialized ENTRIED_VALUE_S + 1;
          endi = lastIndexOf serialized ENTRIED_VALUE_E
      in if strt = INDEX_NOT_FOUND \<or> endi = INDEX_NOT_FOUND
         then Inl (DeserializerError LacksCurlyBrackets)
         else case scan_interior (slice serialized strt endi) tokenizer_start of
                Inl e \<Rightarrow> Inl e
              | Inr t \<Rightarrow>
                 (case flush2 (flush1 t) of
                    Inl e \<Rightarrow> Inl e
                  | Inr t' \<Rightarrow> Inr (outputs t')))"

subsection \<open>What the tokenizer is to compute\<close>

text \<open>
  The reading of the entry grammar the tokenizer is checked against. Each character of
  the body is a separator only at brace depth zero and verbatim text anywhere else; the
  body splits at its entry separators into entries and an entry at its key-value
  separators into fragments; an entry with no non-empty fragment is skipped, one with
  two is a pair, and any other number is a decode error.
\<close>

datatype token = Verbatim jschar | KeyValueSep | EntrySep

fun classify :: "int \<Rightarrow> jsstring \<Rightarrow> token list" where
  "classify d [] = []"
| "classify d (c # cs) =
     (if c = ENTRIED_VALUE_S then Verbatim c # classify (d + 1) cs
      else if c = ENTRIED_VALUE_E then Verbatim c # classify (d - 1) cs
      else if c = KEY_VALUE_SEPERATOR \<and> d = 0 then KeyValueSep # classify d cs
      else if c = ENTRY_SEPERATOR \<and> d = 0 then EntrySep # classify d cs
      else Verbatim c # classify d cs)"

fun split_on :: "'a \<Rightarrow> 'a list \<Rightarrow> 'a list list" where
  "split_on sep [] = [[]]"
| "split_on sep (x # xs) =
     (if x = sep then [] # split_on sep xs
      else (case split_on sep xs of
              [] \<Rightarrow> [[x]]
            | p # ps \<Rightarrow> (x # p) # ps))"

fun text_of :: "token list \<Rightarrow> jsstring" where
  "text_of [] = []"
| "text_of (Verbatim c # ts) = c # text_of ts"
| "text_of (t # ts) = text_of ts"

definition fragments :: "token list \<Rightarrow> jsstring list" where
  "fragments entry = filter (\<lambda>f. f \<noteq> []) (map text_of (split_on KeyValueSep entry))"

fun collect_pairs :: "jsstring list list \<Rightarrow> error + (jsstring \<times> jsstring) list" where
  "collect_pairs [] = Inr []"
| "collect_pairs (fs # rest) =
     (if fs = [] then collect_pairs rest
      else if length fs \<noteq> 2 then Inl (DeserializerError (NonKeyValuePair (length fs)))
      else (case collect_pairs rest of
              Inl e \<Rightarrow> Inl e
            | Inr ps \<Rightarrow> Inr ((fs ! 0, fs ! 1) # ps)))"

definition pairs_at_depth_zero :: "jsstring \<Rightarrow> error + (jsstring \<times> jsstring) list" where
  "pairs_at_depth_zero body = collect_pairs (map fragments (split_on EntrySep (classify 0 body)))"

text \<open>
  The same reading, resumed in the middle of a body: the fragments of the entry under
  way, given the fragment under way \<open>b1\<close> and the fragments \<open>b2\<close> already closed, and
  the pairs of the rest of the body after those already put out.
\<close>

definition resume_entry :: "jsstring \<Rightarrow> jsstring list \<Rightarrow> token list \<Rightarrow> jsstring list" where
  "resume_entry b1 b2 entry =
     (case map text_of (split_on KeyValueSep entry) of
        [] \<Rightarrow> b2
      | p # ps \<Rightarrow> b2 @ filter (\<lambda>f. f \<noteq> []) ((b1 @ p) # ps))"

definition put_after :: "'a list \<Rightarrow> error + 'a list \<Rightarrow> error + 'a list" where
  "put_after before r = (case r of Inl e \<Rightarrow> Inl e | Inr ps \<Rightarrow> Inr (before @ ps))"

definition resume :: "tokenizer \<Rightarrow> token list \<Rightarrow> error + (jsstring \<times> jsstring) list" where
  "resume t ts =
     (case split_on EntrySep ts of
        [] \<Rightarrow> Inr (outputs t)
      | e # es \<Rightarrow>
         put_after (outputs t)
           (collect_pairs (resume_entry (buffer_1 t) (buffer_2 t) e # map fragments es)))"

definition finish :: "error + tokenizer \<Rightarrow> error + (jsstring \<times> jsstring) list" where
  "finish r =
     (case r of
        Inl e \<Rightarrow> Inl e
      | Inr t \<Rightarrow> (case flush2 (flush1 t) of Inl e \<Rightarrow> Inl e | Inr t' \<Rightarrow> Inr (outputs t')))"

section \<open>Values, objects and the host\<close>

subsection \<open>Numbers\<close>

text \<open>
  A Number is \<open>NaN\<close> or a sign with a magnitude, the magnitude being what \<open>Math.abs\<close>
  returns: a non-negative double, zero and \<open>Infinity\<close> included. The magnitudes are a
  type parameter with a zero; equality of \<open>jsnum\<close> is \<open>Object.is\<close>: \<open>NaN\<close> equals
  itself and the two zeros differ.
\<close>

datatype 'm jsnum = NaN | Num bool 'm

definition Math_abs :: "'m jsnum \<Rightarrow> 'm jsnum" where
  "Math_abs n = (case n of NaN \<Rightarrow> NaN | Num negative m \<Rightarrow> Num False m)"

text \<open>\<open>number > 0\<close> and \<open>Object.is(number, 0)\<close>.\<close>

definition greater_than_zero :: "'m::zero jsnum \<Rightarrow> bool" where
  "greater_than_zero n = (case n of NaN \<Rightarrow> False | Num negative m \<Rightarrow> \<not> negative \<and> m \<noteq> 0)"

definition is_positive_zero :: "'m::zero jsnum \<Rightarrow> bool" where
  "is_positive_zero n \<longleftrightarrow> n = Num False 0"

text \<open>The product \<open>sign * digits\<close> of \<open>deserializeNumber\<close>, \<open>sign\<close> being 1 or -1.\<close>

definition times_sign :: "int \<Rightarrow> 'm jsnum \<Rightarrow> 'm jsnum" where
  "times_sign sign n =
     (case n of NaN \<Rightarrow> NaN | Num negative m \<Rightarrow> Num (if sign < 0 then \<not> negative else negative) m)"

text \<open>
  The functions of the host that the source calls on numbers and dates and that are no
  part of the repository:
  \<^item> \<open>numberToString\<close>: \<open>Number.prototype.toString\<close> on a magnitude;
  \<^item> \<open>stringToNumber\<close>: \<open>Number(string)\<close> on any string;
  \<^item> \<open>numberAsIndex\<close>: the non-negative integer a magnitude is, if it is one;
  \<^item> \<open>dateToString\<close>: \<open>Date.prototype.toString\<close> on a time value;
  \<^item> \<open>stringToDate\<close>: the time value of \<open>new Date(string)\<close>.
\<close>

record 'm host =
  numberToString :: "'m \<Rightarrow> jsstring"
  stringToNumber :: "jsstring \<Rightarrow> 'm jsnum"
  numberAsIndex :: "'m \<Rightarrow> nat option"
  dateToString :: "'m jsnum \<Rightarrow> jsstring"
  stringToDate :: "jsstring \<Rightarrow> 'm jsnum"

subsection \<open>Values and the heap\<close>

type_synonym addr = nat

text \<open>
  A symbol is a well-known one, given by its index in \<open>Serializer.WELL_KNOWN_SYMBOLS\<close>,
  or some other symbol. Objects live in the heap and a value refers to one by its
  address, so that sharing and cycles are what they are in the program.
\<close>

datatype 'm val =
    VNull
  | VUndefined
  | VBoolean bool
  | VNumber "'m jsnum"
  | VString jsstring
  | VBigInt int
  | VSymbol "nat option"
  | VObject addr

text \<open>A custom constructor: its identity and its \<open>name\<close>.\<close>

datatype ctor = Ctor (ctor_id: nat) (ctor_name: jsstring)

text \<open>
  What an object is, with its internal slots: the length of an array, the entries of a
  \<open>Map\<close>, the elements of a \<open>Set\<close>, the time value of a \<open>Date\<close>, the name and source
  text of a function, the constructor of an instance of a custom class (a class that
  extends \<open>Object\<close> and whose prototype defines no setter).
\<close>

datatype 'm kind =
    PlainObject
  | ArrayObject nat
  | MapObject "('m val \<times> 'm val) list"
  | SetObject "'m val list"
  | DateObject "'m jsnum"
  | FunctionObject jsstring jsstring
  | Instance ctor

text \<open>An own data property; accessor properties are not modelled.\<close>

record 'm property =
  pvalue :: "'m val"
  configurable :: bool
  enumerable :: bool
  writable :: bool

text \<open>
  An object: its kind, its own string-keyed properties in the order in which the host
  enumerates them (the \<open>length\<close> of an array is kept in its kind), and whether it is
  extensible.
\<close>

record 'm object =
  kind :: "'m kind"
  props :: "(jsstring \<times> 'm property) list"
  extensible :: bool

type_synonym 'm heap = "'m object list"

definition is_zero :: "'m::zero val \<Rightarrow> bool" where
  "is_zero v = (case v of VNumber (Num negative m) \<Rightarrow> m = 0 | _ \<Rightarrow> False)"

text \<open>The key equality of a \<open>Map\<close>: \<open>Object.is\<close>, but for the two zeros, which are equal.\<close>

definition sameValueZero :: "'m::zero val \<Rightarrow> 'm val \<Rightarrow> bool" where
  "sameValueZero a b \<longleftrightarrow> a = b \<or> (is_zero a \<and> is_zero b)"

fun map_get :: "('m::zero val \<times> 'v) list \<Rightarrow> 'm val \<Rightarrow> 'v option" where
  "map_get [] k = None"
| "map_get ((k', v) # rest) k = (if sameValueZero k' k then Some v else map_get rest k)"

fun map_set :: "('m::zero val \<times> 'v) list \<Rightarrow> 'm val \<Rightarrow> 'v \<Rightarrow> ('m val \<times> 'v) list" where
  "map_set [] k v = [(k, v)]"
| "map_set ((k', v') # rest) k v =
     (if sameValueZero k' k then (k', v) # rest else (k', v') # map_set rest k v)"

subsection \<open>Bitflags\<close>

text \<open>
  \<open>PropertyDescriptorFlag\<close> and \<open>ObjectAccessabilityFlag\<close>, with the values the shifts of
  the source give.
\<close>

definition HAS_ACCESSOR :: int where "HAS_ACCESSOR = push_bit 0 1"
definition HAS_METADATA :: int where "HAS_METADATA = push_bit 0 2"
definition IS_CONFIGURABLE :: int where "IS_CONFIGURABLE = push_bit 1 2"
definition IS_ENUMERABLE :: int where "IS_ENUMERABLE = push_bit 2 2"
definition IS_WRITABLE :: int where "IS_WRITABLE = push_bit 3 2"

definition IS_FROZEN :: int where "IS_FROZEN = push_bit 0 1"
definition IS_SEALED :: int where "IS_SEALED = push_bit 0 2"
definition NON_EXTENSIBLE :: int where "NON_EXTENSIBLE = push_bit 1 2"
definition OBJECT_HAS_METADATA :: int where "OBJECT_HAS_METADATA = push_bit 2 2"

lemmas flag_defs =
  HAS_ACCESSOR_def HAS_METADATA_def IS_CONFIGURABLE_def IS_ENUMERABLE_def IS_WRITABLE_def
  IS_FROZEN_def IS_SEALED_def NON_EXTENSIBLE_def OBJECT_HAS_METADATA_def

text \<open>
  \<open>Bitflag.to32bit\<close> on an integer-valued number: out of range throws, and so does the
  one value in range, \<open>2 ^ 31\<close>, that \<open>~~\<close> wraps around.
\<close>

definition to32bit :: "int \<Rightarrow> error + int" where
  "to32bit n =
     (if n > 2 ^ 31 \<or> n < - (2 ^ 31) then Inl BitflagError
      else let int32 = (n + 2 ^ 31) mod 2 ^ 32 - 2 ^ 31
           in if int32 \<noteq> n then Inl BitflagError else Inr int32)"

text \<open>The state of a \<open>Bitflag\<close> is its 32-bit integer; \<open>has\<close> and \<open>enable\<close> with one flag.\<close>

definition has :: "int \<Rightarrow> int \<Rightarrow> bool" where
  "has state flag \<longleftrightarrow> state AND flag = flag"

definition enable :: "int \<Rightarrow> int \<Rightarrow> int" where
  "enable state flag = state OR flag"

section \<open>The serializer\<close>

subsection \<open>\<open>ShorthandType\<close> and constructors\<close>

definition ShorthandType_NULL :: jsstring where "ShorthandType_NULL = str ''0''"
definition ShorthandType_STRING :: jsstring where "ShorthandType_STRING = str ''1''"
definition ShorthandType_NUMBER :: jsstring where "ShorthandType_NUMBER = str ''2''"
definition ShorthandType_OBJECT :: jsstring where "ShorthandType_OBJECT = str ''3''"
definition ShorthandType_ARRAY :: jsstring where "ShorthandType_ARRAY = str ''4''"
definition ShorthandType_MAP :: jsstring where "ShorthandType_MAP = str ''5''"
definition ShorthandType_SET :: jsstring where "ShorthandType_SET = str ''6''"
definition ShorthandType_SYMBOL :: jsstring where "ShorthandType_SYMBOL = str ''7''"
definition ShorthandType_BOOLEAN :: jsstring where "ShorthandType_BOOLEAN = str ''8''"
definition ShorthandType_FUNCTION :: jsstring where "ShorthandType_FUNCTION = str ''9''"
definition ShorthandType_UNDEFINED :: jsstring where "ShorthandType_UNDEFINED = str ''10''"
definition ShorthandType_BIGINT :: jsstring where "ShorthandType_BIGINT = str ''11''"
definition ShorthandType_DATE :: jsstring where "ShorthandType_DATE = str ''12''"

lemmas shorthand_defs =
  ShorthandType_NULL_def ShorthandType_STRING_def ShorthandType_NUMBER_def
  ShorthandType_OBJECT_def ShorthandType_ARRAY_def ShorthandType_MAP_def ShorthandType_SET_def
  ShorthandType_SYMBOL_def ShorthandType_BOOLEAN_def ShorthandType_FUNCTION_def
  ShorthandType_UNDEFINED_def ShorthandType_BIGINT_def ShorthandType_DATE_def

text \<open>
  Modelled from the spec: the enumeration \<open>SerializedBoolean\<close>, whose file is not among
  the sources; the spec gives a boolean as \<open>8|T\<close> or \<open>8|F\<close>.
\<close>

definition SerializedBoolean_TRUE :: jsstring where "SerializedBoolean_TRUE = str ''T''"
definition SerializedBoolean_FALSE :: jsstring where "SerializedBoolean_FALSE = str ''F''"

definition EMPTY :: jsstring where "EMPTY = []"

text \<open>The constructors that \<open>getPrototype(value).constructor\<close> can be.\<close>

datatype constructor =
    FunctionConstructor
  | BooleanConstructor
  | ObjectConstructor
  | SymbolConstructor
  | StringConstructor
  | NumberConstructor
  | BigIntConstructor
  | ArrayConstructor
  | DateConstructor
  | SetConstructor
  | MapConstructor
  | CustomConstructor ctor

definition constructor_of_kind :: "'m kind \<Rightarrow> constructor" where
  "constructor_of_kind k =
     (case k of
        PlainObject \<Rightarrow> ObjectConstructor
      | ArrayObject n \<Rightarrow> ArrayConstructor
      | MapObject es \<Rightarrow> MapConstructor
      | SetObject vs \<Rightarrow> SetConstructor
      | DateObject t \<Rightarrow> DateConstructor
      | FunctionObject name source \<Rightarrow> FunctionConstructor
      | Instance c \<Rightarrow> CustomConstructor c)"

text \<open>
  \<open>this.getPrototype(value).constructor\<close> for a value that is neither \<open>null\<close> nor
  \<open>undefined\<close>; \<open>None\<close> for those two and for an address outside the heap.
\<close>

definition constructor_of :: "'m heap \<Rightarrow> 'm val \<Rightarrow> constructor option" where
  "constructor_of h v =
     (case v of
        VNull \<Rightarrow> None
      | VUndefined \<Rightarrow> None
      | VBoolean b \<Rightarrow> Some BooleanConstructor
      | VNumber n \<Rightarrow> Some NumberConstructor
      | VString s \<Rightarrow> Some StringConstructor
      | VBigInt i \<Rightarrow> Some BigIntConstructor
      | VSymbol s \<Rightarrow> Some SymbolConstructor
      | VObject a \<Rightarrow> (if a < length h then Some (constructor_of_kind (kind (h ! a))) else None))"

subsection \<open>State\<close>

record configuration =
  DebugMode :: bool
  Functions :: bool
  Metadata :: bool

text \<open>The private fields of a \<open>Serializer\<close>.\<close>

record 'm serializer =
  config :: configuration
  ticks :: nat
  reference_ids :: nat
  reference_value_map :: "('m val \<times> nat) list"
  reference_usage :: nat
  custom_constructors :: "ctor list"

definition wipe :: "configuration \<Rightarrow> 'm serializer \<Rightarrow> 'm serializer" where
  "wipe cfg st = st\<lparr>config := cfg, ticks := 0, reference_ids := 0, reference_value_map := [],
                      reference_usage := 0, custom_constructors := []\<rparr>"

subsection \<open>\<open>mark\<close>\<close>

text \<open>
  The id is taken and the counter incremented before \<open>serialize(value)\<close> runs, the
  operands of the concatenation being evaluated from the left.
\<close>

definition mark ::
  "'m::zero val \<Rightarrow> ('m serializer \<Rightarrow> error + jsstring \<times> 'm serializer) \<Rightarrow> 'm serializer
   \<Rightarrow> error + jsstring \<times> 'm serializer" where
  "mark v serialize st =
     (case map_get (reference_value_map st) v of
        Some i \<Rightarrow>
          Inr (REFERENCE_POINTER # nat_toString i, st\<lparr>reference_usage := reference_usage st + 1\<rparr>)
      | None \<Rightarrow>
          (let st1 = (if \<not> is_zero v
                      then st\<lparr>reference_value_map :=
                                map_set (reference_value_map st) v (reference_ids st)\<rparr>
                      else st);
               i = reference_ids st1;
               st2 = st1\<lparr>reference_ids := i + 1\<rparr>
           in case serialize st2 of
                Inl e \<Rightarrow> Inl e
              | Inr (s, st3) \<Rightarrow>
                  Inr (REFERENCE_DECLARARION_S # nat_toString i @ REFERENCE_DECLARATION_E # s, st3)))"

subsection \<open>The serializers of the types\<close>

definition serializeBoolean :: "bool \<Rightarrow> jsstring" where
  "serializeBoolean b = (if b then SerializedBoolean_TRUE else SerializedBoolean_FALSE)"

definition serializeString :: "jsstring \<Rightarrow> jsstring" where
  "serializeString s = escape s"

definition serializeNumber :: "'m::zero host \<Rightarrow> 'm jsnum \<Rightarrow> jsstring" where
  "serializeNumber H number =
     (if number = NaN then str ''NaN''
      else let sign = (if greater_than_zero number \<or> is_positive_zero number
                       then EMPTY else str ''-'')
           in case Math_abs number of
                NaN \<Rightarrow> sign @ str ''NaN''
              | Num negative m \<Rightarrow> sign @ numberToString H m)"

text \<open>\<open>serializeSymbol\<close>: the index of a well-known symbol, as a string.\<close>

definition serializeSymbol :: "nat option \<Rightarrow> error + jsstring" where
  "serializeSymbol symbol =
     (case symbol of
        Some i \<Rightarrow> Inr (nat_toString i)
      | None \<Rightarrow> Inl (SerializerError NonWellKnownSymbol))"

text \<open>\<open>bigint.toString()\<close>.\<close>

definition serializeBigint :: "int \<Rightarrow> jsstring" where
  "serializeBigint i = (if i < 0 then str ''-'' @ nat_toString (nat (- i)) else nat_toString (nat i))"

definition serializeDate :: "'m host \<Rightarrow> 'm jsnum \<Rightarrow> jsstring" where
  "serializeDate H time = escape (dateToString H time)"

definition serializeFunction :: "configuration \<Rightarrow> jsstring \<Rightarrow> jsstring \<Rightarrow> error + jsstring" where
  "serializeFunction cfg name source =
     (if \<not> Functions cfg then Inl (SerializerError FunctionSerializationDisabled)
      else Inr (name @ FUNCTION_NAME_SEPERATOR # escape source))"

subsection \<open>Objects\<close>

text \<open>
  \<open>propertyDescriptorFlag\<close>. The test \<open>property in object\<close> is made on the own
  properties; the keys it is asked about are own keys of the object.
\<close>

definition has_instance_of_Map_or_Set :: "'m kind \<Rightarrow> bool" where
  "has_instance_of_Map_or_Set k = (case k of MapObject es \<Rightarrow> True | SetObject vs \<Rightarrow> True | _ \<Rightarrow> False)"

definition propertyDescriptorFlag :: "'m object \<Rightarrow> 'm val \<Rightarrow> error + int" where
  "propertyDescriptorFlag object property =
     (if has_instance_of_Map_or_Set (kind object) then Inr 0
      else case property of
             VString key \<Rightarrow>
               (case map_of (props object) key of
                  None \<Rightarrow> Inl (SerializerError PropertyDoesNotExist)
                | Some descriptor \<Rightarrow>
                    (let f0 = 0;
                         f1 = (if configurable descriptor then enable f0 IS_CONFIGURABLE else f0);
                         f2 = (if enumerable descriptor then enable f1 IS_ENUMERABLE else f1);
                         f3 = (if writable descriptor then enable f2 IS_WRITABLE else f2)
                     in Inr f3))
           | _ \<Rightarrow> Inl NotModelled)"

text \<open>\<open>Object.entries\<close>: the own enumerable string-keyed properties.\<close>

definition Object_entries :: "'m object \<Rightarrow> ('m val \<times> 'm val) list" where
  "Object_entries object =
     map (\<lambda>(key, p). (VString key, pvalue p)) (filter (\<lambda>(key, p). enumerable p) (props object))"

text \<open>
  \<open>entries\<close>. Every object of the model is an \<open>instanceof Object\<close>. The last branch,
  over \<open>Object.getOwnPropertyNames\<close>, takes all own string-keyed properties.
\<close>

definition entries :: "'m object \<Rightarrow> ('m val \<times> 'm val) list" where
  "entries object =
     (case kind object of
        ArrayObject n \<Rightarrow> Object_entries object
      | MapObject es \<Rightarrow> es
      | SetObject vs \<Rightarrow> Object_entries object
      | _ \<Rightarrow> map (\<lambda>(key, p). (VString key, pvalue p)) (props object))"

text \<open>
  \<open>shorthandConstructor\<close>: the shorthand of a native constructor, or \<open>$\<close> and the index
  of a custom one in \<open>#custom_constructors\<close>, pushed there when it is new.
\<close>

fun index_of :: "'a list \<Rightarrow> 'a \<Rightarrow> nat option" where
  "index_of [] x = None"
| "index_of (y # ys) x = (if y = x then Some 0 else map_option Suc (index_of ys x))"

fun shorthandConstructor :: "constructor \<Rightarrow> 'm serializer \<Rightarrow> jsstring \<times> 'm serializer" where
  "shorthandConstructor FunctionConstructor st = (ShorthandType_FUNCTION, st)"
| "shorthandConstructor BooleanConstructor st = (ShorthandType_BOOLEAN, st)"
| "shorthandConstructor ObjectConstructor st = (ShorthandType_OBJECT, st)"
| "shorthandConstructor SymbolConstructor st = (ShorthandType_SYMBOL, st)"
| "shorthandConstructor StringConstructor st = (ShorthandType_STRING, st)"
| "shorthandConstructor NumberConstructor st = (ShorthandType_NUMBER, st)"
| "shorthandConstructor BigIntConstructor st = (ShorthandType_BIGINT, st)"
| "shorthandConstructor ArrayConstructor st = (ShorthandType_ARRAY, st)"
| "shorthandConstructor DateConstructor st = (ShorthandType_DATE, st)"
| "shorthandConstructor SetConstructor st = (ShorthandType_SET, st)"
| "shorthandConstructor MapConstructor st = (ShorthandType_MAP, st)"
| "shorthandConstructor (CustomConstructor c) st =
     (case index_of (custom_constructors st) c of
        None \<Rightarrow>
          (TYPE_CUSTOM_CLASS_SPECIFIER # nat_toString (length (custom_constructors st)),
           st\<lparr>custom_constructors := custom_constructors st @ [c]\<rparr>)
      | Some custom \<Rightarrow> (TYPE_CUSTOM_CLASS_SPECIFIER # nat_toString custom, st))"

text \<open>
  \<open>serializeObjectKeyIndex\<close> and the \<open>reduce\<close> of \<open>serializeObject\<close>, the recursive call
  \<open>this.#serialize\<close> being the parameter \<open>rec\<close>.
\<close>

definition serializeObjectKeyIndex ::
  "('m val \<Rightarrow> 'm serializer \<Rightarrow> error + jsstring \<times> 'm serializer) \<Rightarrow> 'm object \<Rightarrow> 'm val
   \<Rightarrow> 'm serializer \<Rightarrow> error + jsstring \<times> 'm serializer" where
  "serializeObjectKeyIndex rec obj key st =
     (case rec key st of
        Inl e \<Rightarrow> Inl e
      | Inr (sk, st1) \<Rightarrow>
          (let k = KEY_INDEX_S # sk @ [KEY_INDEX_E]
           in case propertyDescriptorFlag obj key of
                Inl e \<Rightarrow> Inl e
              | Inr flags \<Rightarrow> Inr (k @ PROPERTY_ACCESSABILITY # nat_toString (nat flags), st1)))"

fun reduce_entries ::
  "('m val \<Rightarrow> 'm serializer \<Rightarrow> error + jsstring \<times> 'm serializer) \<Rightarrow> 'm object
   \<Rightarrow> ('m val \<times> 'm val) list \<Rightarrow> int \<Rightarrow> jsstring \<Rightarrow> 'm serializer
   \<Rightarrow> error + jsstring \<times> 'm serializer" where
  "reduce_entries rec object [] index output st = Inr (output, st)"
| "reduce_entries rec object ((key, val) # rest) index output st =
     (case serializeObjectKeyIndex rec object key st of
        Inl e \<Rightarrow> Inl e
      | Inr (sk, st1) \<Rightarrow>
          (case rec val st1 of
             Inl e \<Rightarrow> Inl e
           | Inr (sv, st2) \<Rightarrow>
               (let seperator = (if index \<noteq> INDEX_START then [ENTRY_SEPERATOR] else EMPTY)
                in reduce_entries rec object rest (index + 1)
                     (output @ seperator @ sk @ KEY_VALUE_SEPERATOR # sv) st2)))"

definition serializeObject ::
  "('m val \<Rightarrow> 'm serializer \<Rightarrow> error + jsstring \<times> 'm serializer) \<Rightarrow> 'm object
   \<Rightarrow> 'm serializer \<Rightarrow> error + jsstring \<times> 'm serializer" where
  "serializeObject rec object st =
     (case reduce_entries rec object (entries object) 0 EMPTY st of
        Inl e \<Rightarrow> Inl e
      | Inr (serialized, st') \<Rightarrow> Inr (ENTRIED_VALUE_S # serialized @ [ENTRIED_VALUE_E], st'))"

subsection \<open>\<open>#serialize\<close>\<close>

text \<open>
  The function that \<open>#serialize\<close> hands to \<open>mark\<close>. The tests on \<open>typeof value\<close> exclude
  one another, so their order does not show; a \<open>Date\<close> is tested first, as in the source.
\<close>

definition serialize_value ::
  "('m val \<Rightarrow> 'm serializer \<Rightarrow> error + jsstring \<times> 'm serializer) \<Rightarrow> 'm::zero host \<Rightarrow> 'm heap
   \<Rightarrow> 'm val \<Rightarrow> 'm serializer \<Rightarrow> error + jsstring \<times> 'm serializer" where
  "serialize_value rec H h v st0 =
     (let st = st0\<lparr>ticks := ticks st0 + 1\<rparr>
      in if v = VNull then Inr (ShorthandType_NULL, st)
         else if v = VUndefined then Inr (ShorthandType_UNDEFINED, st)
         else case constructor_of h v of
                None \<Rightarrow> Inl NotModelled
              | Some c \<Rightarrow>
                 (let (shorthand, st1) = shorthandConstructor c st;
                      output = shorthand @ [TYPE_SEPERATOR]
                  in case v of
                       VObject a \<Rightarrow>
                         (case kind (h ! a) of
                            DateObject time \<Rightarrow> Inr (output @ serializeDate H time, st1)
                          | FunctionObject name source \<Rightarrow>
                              (case serializeFunction (config st1) name source of
                                 Inl e \<Rightarrow> Inl e
                               | Inr s \<Rightarrow> Inr (output @ s, st1))
                          | _ \<Rightarrow>
                              (case serializeObject rec (h ! a) st1 of
                                 Inl e \<Rightarrow> Inl e
                               | Inr (s, st2) \<Rightarrow> Inr (output @ s, st2)))
                     | VBoolean b \<Rightarrow> Inr (output @ serializeBoolean b, st1)
                     | VBigInt i \<Rightarrow> Inr (output @ serializeBigint i, st1)
                     | VNumber n \<Rightarrow> Inr (output @ serializeNumber H n, st1)
                     | VString s \<Rightarrow> Inr (output @ serializeString s, st1)
                     | VSymbol s \<Rightarrow>
                         (case serializeSymbol s of
                            Inl e \<Rightarrow> Inl e
                          | Inr s' \<Rightarrow> Inr (output @ s', st1))
                     | _ \<Rightarrow> Inl NotModelled))"

text \<open>
  The recursion of \<open>#serialize\<close> ends because \<open>mark\<close> records an object before its
  entries are serialized; here it runs on a bound, and \<open>OutOfFuel\<close> says the bound was
  reached.
\<close>

primrec serialize_internal ::
  "nat \<Rightarrow> 'm::zero host \<Rightarrow> 'm heap \<Rightarrow> 'm val \<Rightarrow> 'm serializer \<Rightarrow> error + jsstring \<times> 'm serializer" where
  "serialize_internal 0 H h v st = Inl OutOfFuel"
| "serialize_internal (Suc n) H h v st =
     mark v (serialize_value (serialize_internal n H h) H h v) st"

subsection \<open>\<open>clean\<close>\<close>

definition starts_with :: "'a list \<Rightarrow> 'a list \<Rightarrow> bool" where
  "starts_with pattern s \<longleftrightarrow> take (length pattern) s = pattern"

text \<open>
  \<open>serialized.match(regex)\<close> for the global \<open>/@\d+=/\<close>: the matches from left to right,
  the search resuming after each one.
\<close>

function declaration_matches :: "jsstring \<Rightarrow> jsstring list" where
  "declaration_matches [] = []"
| "declaration_matches (c # cs) =
     (let ds = takeWhile isDigit cs; rest = dropWhile isDigit cs
      in if c = REFERENCE_DECLARARION_S \<and> ds \<noteq> [] \<and> rest \<noteq> [] \<and> hd rest = REFERENCE_DECLARATION_E
         then (c # ds @ [REFERENCE_DECLARATION_E]) # declaration_matches (tl rest)
         else declaration_matches cs)"
  by pat_completeness auto
termination
proof (relation "measure length")
  fix c :: jschar and cs x xa
  assume "xa = dropWhile isDigit cs"
  then have "length (tl xa) \<le> length cs"
    using length_dropWhile_le [of isDigit cs] by simp
  then show "(tl xa, c # cs) \<in> measure length" by simp
qed simp_all

text \<open>
  A match of \<open>rr\<close>, that is of \<open>#\<close>, the digits of \<open>id\<close> and one character that is no
  digit, at the start of a string; and \<open>serialized.match(rr) !== null\<close>.
\<close>

definition pointer_at :: "jsstring \<Rightarrow> jsstring \<Rightarrow> bool" where
  "pointer_at ident s \<longleftrightarrow>
     starts_with (REFERENCE_POINTER # ident) s \<and> length ident + 1 < length s \<and> \<not> isDigit (s ! (length ident + 1))"

fun has_pointer :: "jsstring \<Rightarrow> jsstring \<Rightarrow> bool" where
  "has_pointer ident [] = False"
| "has_pointer ident (c # cs) = (pointer_at ident (c # cs) \<or> has_pointer ident cs)"

text \<open>
  \<open>replace\<close> with a string, or with a regular expression that is not global and matches
  a literal text: the first occurrence is replaced.
\<close>

fun replace_first :: "jsstring \<Rightarrow> jsstring \<Rightarrow> jsstring \<Rightarrow> jsstring" where
  "replace_first pattern replacement [] = (if pattern = [] then replacement else [])"
| "replace_first pattern replacement (c # cs) =
     (if starts_with pattern (c # cs) then replacement @ drop (length pattern) (c # cs)
      else c # replace_first pattern replacement cs)"

text \<open>
  \<open>replace(rr, (_, v) => '#' + references + v)\<close>: every match of the global \<open>rr\<close>, the
  character \<open>v\<close> after the id being part of the match, so that the search resumes after
  \<open>v\<close>. The test \<open>typeof v === "number"\<close> of the source never holds, \<open>v\<close> being a string.
\<close>

function replace_pointers :: "jsstring \<Rightarrow> jsstring \<Rightarrow> jsstring \<Rightarrow> jsstring" where
  "replace_pointers ident references [] = []"
| "replace_pointers ident references (c # cs) =
     (if pointer_at ident (c # cs)
      then REFERENCE_POINTER # references @ (c # cs) ! (length ident + 1)
             # replace_pointers ident references (drop (length ident + 1) cs)
      else c # replace_pointers ident references cs)"
  by pat_completeness auto
termination
  by (relation "measure (\<lambda>(ident, references, s). length s)") auto

definition clean_step :: "jsstring \<times> nat \<Rightarrow> jsstring \<Rightarrow> jsstring \<times> nat" where
  "clean_step state match =
     (let serialized = fst state; references = snd state;
          ident = slice match (indexOf match REFERENCE_DECLARARION_S + 1) (- 1);
          ir = REFERENCE_DECLARARION_S # ident @ [REFERENCE_DECLARATION_E]
      in if \<not> has_pointer ident serialized
         then (replace_first ir EMPTY serialized, references)
         else (replace_pointers ident (nat_toString references)
                 (replace_first match
                    (REFERENCE_DECLARARION_S # nat_toString references @ [REFERENCE_DECLARATION_E])
                    serialized),
               references + 1))"

definition clean :: "jsstring \<Rightarrow> jsstring" where
  "clean serialized = fst (foldl clean_step (serialized, 0) (declaration_matches serialized))"

subsection \<open>\<open>serialize\<close>\<close>

text \<open>\<open>Array.prototype.join\<close>.\<close>

fun join :: "jsstring \<Rightarrow> jsstring list \<Rightarrow> jsstring" where
  "join sep [] = []"
| "join sep [x] = x"
| "join sep (x # y # ys) = x @ sep @ join sep (y # ys)"

text \<open>
  The first pass, \<open>this.#serialize(value)\<close> after \<open>wipe\<close>. A chain of nested calls goes
  through distinct unmarked objects and ends in one more call, so the bound is the size
  of the heap and one.
\<close>

definition serialize_pass ::
  "'m::zero host \<Rightarrow> 'm heap \<Rightarrow> 'm val \<Rightarrow> 'm serializer \<Rightarrow> error + jsstring \<times> 'm serializer" where
  "serialize_pass H h v st = serialize_internal (Suc (length h)) H h v (wipe (config st) st)"

definition serialize ::
  "'m::zero host \<Rightarrow> 'm heap \<Rightarrow> 'm val \<Rightarrow> 'm serializer \<Rightarrow> error + jsstring \<times> 'm serializer" where
  "serialize H h v st =
     (if Metadata (config (wipe (config st) st)) then Inl (SerializerError MetadataUnsupported)
      else case serialize_pass H h v st of
             Inl e \<Rightarrow> Inl e
           | Inr (serialized, st') \<Rightarrow>
               (let dependencies =
                      (if length (custom_constructors st') = 0 then EMPTY
                       else DEPENDENCIES_S @ join [ENTRY_SEPERATOR] (map ctor_name (custom_constructors st'))
                            @ DEPENDENDIES_E)
                in Inr (dependencies @ clean serialized, st')))"

section \<open>Reference declarations and pointers in a serialized text\<close>




text \<open>
  A serialized text cut into its reference declarations, its pointers and the text
  between them.
\<close>

datatype item = Decl nat | Ptr nat | Txt jsstring

fun render_item :: "item \<Rightarrow> jsstring" where
  "render_item (Decl i) = REFERENCE_DECLARARION_S # nat_toString i @ [REFERENCE_DECLARATION_E]"
| "render_item (Ptr i) = REFERENCE_POINTER # nat_toString i"
| "render_item (Txt t) = t"

definition render :: "item list \<Rightarrow> jsstring" where
  "render items = concat (map render_item items)"





fun decls_of :: "item list \<Rightarrow> nat list" where
  "decls_of [] = []"
| "decls_of (Decl i # rest) = i # decls_of rest"
| "decls_of (x # rest) = decls_of rest"

fun ptrs_of :: "item list \<Rightarrow> nat list" where
  "ptrs_of [] = []"
| "ptrs_of (Ptr i # rest) = i # ptrs_of rest"
| "ptrs_of (x # rest) = ptrs_of rest"

text \<open>
  The cut is the one the regular expressions of \<open>clean\<close> see when no text between the
  declarations and pointers holds an \<open>@\<close> or a \<open>#\<close>, and when a text that does not start
  with a digit follows every pointer.
\<close>

fun text_safe :: "item list \<Rightarrow> bool" where
  "text_safe [] = True"
| "text_safe (Txt t # rest) =
     (REFERENCE_DECLARARION_S \<notin> set t \<and> REFERENCE_POINTER \<notin> set t \<and> text_safe rest)"
| "text_safe (x # rest) = text_safe rest"

definition starts_text :: "item list \<Rightarrow> bool" where
  "starts_text items =
     (case items of
        Txt t # rest \<Rightarrow> t \<noteq> [] \<and> \<not> isDigit (hd t)
      | _ \<Rightarrow> False)"

fun ptr_followed :: "item list \<Rightarrow> bool" where
  "ptr_followed [] = True"
| "ptr_followed (Ptr i # rest) = (starts_text rest \<and> ptr_followed rest)"
| "ptr_followed (x # rest) = ptr_followed rest"





text \<open>
  The shape of what the encoder writes. A text is plain when it holds no \<open>@\<close> and no \<open>#\<close>;
  the host writes plain numbers when \<open>toString\<close> of a magnitude is plain, as the digits,
  the point, the exponent and \<open>Infinity\<close> of a number are.
\<close>

definition plain :: "jsstring \<Rightarrow> bool" where
  "plain t \<longleftrightarrow> REFERENCE_DECLARARION_S \<notin> set t \<and> REFERENCE_POINTER \<notin> set t"


text \<open>
  A cut text whose every pointer is followed by a text once the \<open>}\<close> of the enclosing
  object is written after it, and the cut text of one value: a single pointer, or a
  text in which every pointer is followed.
\<close>

definition closable :: "item list \<Rightarrow> bool" where
  "closable items = ptr_followed (items @ [Txt [ENTRIED_VALUE_E]])"



text \<open>Every id of \<open>#reference_value_map\<close> has been handed out by \<open>#reference_ids\<close>.\<close>

definition known_ids :: "'m serializer \<Rightarrow> bool" where
  "known_ids st = list_all (\<lambda>(v, i). i < reference_ids st) (reference_value_map st)"

text \<open>
  A call that started in \<open>st\<close> wrote a text that is cut into declarations with the ids
  it has handed out, in their order, pointers to ids handed out so far, and plain text.
\<close>

definition encodes :: "(item list \<Rightarrow> bool) \<Rightarrow> 'm serializer \<Rightarrow> jsstring \<times> 'm serializer \<Rightarrow> bool" where
  "encodes shape st r \<longleftrightarrow>
     config (snd r) = config st \<and> known_ids (snd r) \<and> reference_ids st \<le> reference_ids (snd r)
     \<and> (\<exists>items. fst r = render items \<and> text_safe items \<and> shape items
          \<and> decls_of items = [reference_ids st..<reference_ids (snd r)]
          \<and> (\<forall>j \<in> set (ptrs_of items). j < reference_ids (snd r)))"


section \<open>\<open>Type\<close> and \<open>SerializedBlockInfo\<close>\<close>

subsection \<open>\<open>Type\<close>\<close>

definition isSingleton :: "jsstring \<Rightarrow> bool" where
  "isSingleton inner \<longleftrightarrow> inner \<in> set [ShorthandType_UNDEFINED, ShorthandType_NULL]"

definition isEntried :: "jsstring \<Rightarrow> bool" where
  "isEntried inner \<longleftrightarrow>
     inner \<in> set [ShorthandType_OBJECT, ShorthandType_ARRAY, ShorthandType_MAP, ShorthandType_SET]"

definition isCustom :: "jsstring \<Rightarrow> bool" where
  "isCustom inner \<longleftrightarrow> starts_with [TYPE_CUSTOM_CLASS_SPECIFIER] inner"

text \<open>\<open>getCustomTypeReference\<close> on a custom type: \<open>Number\<close> of what follows the \<open>$\<close>.\<close>

definition getCustomTypeReference :: "'m host \<Rightarrow> jsstring \<Rightarrow> error + 'm jsnum" where
  "getCustomTypeReference H inner =
     (let string = slice_from inner 1; numeric = stringToNumber H string
      in if numeric = NaN then Inl SerdeError else Inr numeric)"

subsection \<open>The helpers of \<open>SerializedBlockInfo\<close>\<close>

definition removeKeyBrackets :: "jsstring \<Rightarrow> jsstring" where
  "removeKeyBrackets serialized =
     (let s = indexOf serialized KEY_INDEX_S; e = lastIndexOf serialized KEY_INDEX_E
      in if s \<noteq> INDEX_START then serialized else slice serialized (s + 1) e)"

definition removeReferenceDeclaration :: "jsstring \<Rightarrow> jsstring" where
  "removeReferenceDeclaration serialized =
     (let sat = indexOf serialized REFERENCE_DECLARARION_S;
          eat = indexOf serialized REFERENCE_DECLARATION_E
      in if sat \<noteq> INDEX_START then serialized
         else if eat = INDEX_NOT_FOUND then serialized
         else slice_from serialized (eat + 1))"

definition isKeyIndex :: "jsstring \<Rightarrow> bool" where
  "isKeyIndex serialized \<longleftrightarrow> starts_with [KEY_INDEX_S] serialized"

datatype action = Get | Set

text \<open>
  The first match of \<open>/(^|[@#])(?<id>\d+)/m\<close> and its group \<open>id\<close>. With the flag \<open>m\<close> the
  anchor holds at the start of the string and after a line terminator; \<open>at_line_start\<close>
  says whether it holds where the search stands. At one position the anchor is tried
  before the character class, and the digits are taken greedily.
\<close>

definition isLineTerminator :: "jschar \<Rightarrow> bool" where
  "isLineTerminator c \<longleftrightarrow> c \<in> set [0x000A, 0x000D, 0x2028, 0x2029]"

fun match_reference_id :: "bool \<Rightarrow> jsstring \<Rightarrow> jsstring option" where
  "match_reference_id at_line_start [] = None"
| "match_reference_id at_line_start (c # cs) =
     (if at_line_start \<and> isDigit c then Some (takeWhile isDigit (c # cs))
      else if (c = REFERENCE_DECLARARION_S \<or> c = REFERENCE_POINTER) \<and> takeWhile isDigit cs \<noteq> []
        then Some (takeWhile isDigit cs)
      else match_reference_id (isLineTerminator c) cs)"

text \<open>\<open>extractReference\<close>; \<open>Number(match)\<close> is never \<open>NaN\<close>, the match being digits.\<close>

definition extractReference :: "jsstring \<Rightarrow> error + (action \<times> nat) option" where
  "extractReference serialized0 =
     (let serialized = removeKeyBrackets serialized0;
          refget = indexOf serialized REFERENCE_POINTER;
          refset = indexOf serialized REFERENCE_DECLARARION_S
      in if refget \<noteq> INDEX_START \<and> refset \<noteq> INDEX_START then Inr None
         else case match_reference_id True serialized of
                None \<Rightarrow> Inl (DeserializerError ReferenceDigitsMissing)
              | Some match \<Rightarrow>
                  (let numeric = Number_of_digits match;
                       action = (if refget = 0 then Get else Set)
                   in Inr (Some (action, numeric))))"

text \<open>The first match of \<open>/%(\d+)/m\<close> and its group.\<close>

fun match_accessability :: "jsstring \<Rightarrow> jsstring option" where
  "match_accessability [] = None"
| "match_accessability (c # cs) =
     (if c = PROPERTY_ACCESSABILITY \<and> takeWhile isDigit cs \<noteq> [] then Some (takeWhile isDigit cs)
      else match_accessability cs)"

text \<open>
  \<open>extractDescriptorInfo\<close>. \<open>new Bitflag(PropertyDescriptorFlag, name, numeric)\<close>
  validates the enumeration, which passes, and converts \<open>numeric\<close> with \<open>to32bit\<close>.
\<close>

definition extractDescriptorInfo :: "jsstring \<Rightarrow> error + int option" where
  "extractDescriptorInfo serialized =
     (if \<not> isKeyIndex serialized then Inr None
      else case match_accessability serialized of
             None \<Rightarrow> Inl (DeserializerError AccessabilityOmitted)
           | Some match \<Rightarrow>
               (case to32bit (int (Number_of_digits match)) of
                  Inl e \<Rightarrow> Inl e
                | Inr state \<Rightarrow> Inr (Some state)))"

definition extractType :: "jsstring \<Rightarrow> jsstring" where
  "extractType serialized0 =
     (let serialized = removeReferenceDeclaration (removeKeyBrackets serialized0);
          typeMarkerIndex = indexOf serialized TYPE_SEPERATOR;
          terminator = (if typeMarkerIndex = INDEX_NOT_FOUND then int (length serialized)
                        else typeMarkerIndex)
      in slice serialized 0 terminator)"

definition extractSerializedValue :: "jsstring \<Rightarrow> jsstring option" where
  "extractSerializedValue serialized0 =
     (let serialized = removeReferenceDeclaration (removeKeyBrackets serialized0);
          typeMarkerIndex = indexOf serialized TYPE_SEPERATOR
      in if typeMarkerIndex = INDEX_NOT_FOUND then None
         else Some (slice_from serialized (typeMarkerIndex + 1)))"

subsection \<open>The constructor of \<open>SerializedBlockInfo\<close>\<close>

text \<open>
  The fields of a \<open>SerializedBlockInfo\<close>; \<open>type\<close> is the \<open>inner\<close> of its \<open>Type\<close>. The
  field \<open>accessability\<close> is always \<open>null\<close> (the constructor sets it so, under a TODO
  note), hence the unit. The extractors run in the order of the assignments, and the
  first that throws ends the construction.
\<close>

record block_info =
  reference :: "(action \<times> nat) option"
  descriptor :: "int option"
  accessability :: "unit option"
  type :: jsstring
  isKeyIndex_field :: bool
  serializedValue :: "jsstring option"

definition SerializedBlockInfo :: "jsstring \<Rightarrow> error + block_info" where
  "SerializedBlockInfo serialized =
     (case extractReference serialized of
        Inl e \<Rightarrow> Inl e
      | Inr r \<Rightarrow>
          (case extractDescriptorInfo serialized of
             Inl e \<Rightarrow> Inl e
           | Inr d \<Rightarrow>
               Inr \<lparr>reference = r, descriptor = d, accessability = None,
                    type = extractType serialized, isKeyIndex_field = isKeyIndex serialized,
                    serializedValue = extractSerializedValue serialized\<rparr>))"

section \<open>The deserializer\<close>

subsection \<open>State\<close>

text \<open>
  The private fields of a \<open>Deserializer\<close>. Nothing in the class resets them: it has no
  \<open>wipe\<close>, and \<open>deserialize\<close> starts from what the call before left.
\<close>

record 'm deserializer =
  dependencies :: "nat \<rightharpoonup> ctor"
  references :: "nat \<rightharpoonup> 'm val"
  d_ticks :: nat
  d_config :: configuration

text \<open>A deserializer in the program's memory: the instance and the heap of objects.\<close>

record 'm machine =
  self :: "'m deserializer"
  heap :: "'m heap"

definition new_Deserializer :: "configuration \<Rightarrow> 'm deserializer" where
  "new_Deserializer cfg =
     \<lparr>dependencies = Map.empty, references = Map.empty, d_ticks = 0, d_config = cfg\<rparr>"

subsection \<open>References\<close>

text \<open>\<open>getReference\<close> and \<open>setReference\<close>, called with a number.\<close>

definition getReference :: "nat \<Rightarrow> 'm machine \<Rightarrow> error + 'm val" where
  "getReference numeric st =
     (case references (self st) numeric of
        None \<Rightarrow> Inl (DeserializerError (ReferenceNotInitialized numeric))
      | Some v \<Rightarrow> Inr v)"

definition setReference :: "nat \<Rightarrow> 'm val \<Rightarrow> 'm machine \<Rightarrow> 'm machine" where
  "setReference numeric v st =
     st\<lparr>self := (self st)\<lparr>references := (references (self st))(numeric \<mapsto> v)\<rparr>\<rparr>"

subsection \<open>The deserializers of the types\<close>

definition deserializeNumber :: "'m host \<Rightarrow> jsstring \<Rightarrow> 'm jsnum" where
  "deserializeNumber H serializedNumber =
     (if serializedNumber = str ''NaN'' then NaN
      else let sign = (if slice serializedNumber 0 1 = str ''-'' then - 1 else 1 :: int);
               digits = (if sign = 1 then stringToNumber H serializedNumber
                         else stringToNumber H (slice_from serializedNumber 1))
           in times_sign sign digits)"

definition deserializeString :: "jsstring \<Rightarrow> jsstring" where
  "deserializeString s = unescape s"

definition deserializeBoolean :: "jsstring \<Rightarrow> error + bool" where
  "deserializeBoolean serialized =
     (if serialized \<noteq> SerializedBoolean_TRUE \<and> serialized \<noteq> SerializedBoolean_FALSE
      then Inl (DeserializerError InvalidBoolean)
      else Inr (serialized = SerializedBoolean_TRUE))"

text \<open>
  \<open>deserializeBigInt\<close>: \<open>BigInt(serialized)\<close> on decimal digits with or without a minus
  sign, which is what \<open>serializeBigint\<close> writes. The other literals the host accepts, and
  the \<open>SyntaxError\<close> on the rest, are not modelled.
\<close>

definition deserializeBigInt :: "jsstring \<Rightarrow> error + int" where
  "deserializeBigInt serialized =
     (if serialized \<noteq> [] \<and> list_all isDigit serialized then Inr (int (decimal_value serialized))
      else if starts_with (str ''-'') serialized \<and> tl serialized \<noteq> [] \<and> list_all isDigit (tl serialized)
        then Inr (- int (decimal_value (tl serialized)))
      else Inl NotModelled)"

text \<open>
  \<open>deserializeFunction\<close> refuses when the configuration has not enabled functions;
  otherwise it evaluates the source text with \<open>eval\<close>, which is not modelled.
\<close>

definition deserializeFunction :: "configuration \<Rightarrow> jsstring \<Rightarrow> error + 'm val" where
  "deserializeFunction cfg serializedFunction =
     (if \<not> Functions cfg then Inl (DeserializerError FunctionDeserializationDisabled)
      else Inl NotModelled)"

subsection \<open>Objects of the host\<close>

definition allocate :: "'m object \<Rightarrow> 'm machine \<Rightarrow> 'm val \<times> 'm machine" where
  "allocate object st = (VObject (length (heap st)), st\<lparr>heap := heap st @ [object]\<rparr>)"

definition new_object :: "'m kind \<Rightarrow> 'm object" where
  "new_object k = \<lparr>kind = k, props = [], extensible = True\<rparr>"

definition deserializeDate :: "'m host \<Rightarrow> jsstring \<Rightarrow> 'm machine \<Rightarrow> 'm val \<times> 'm machine" where
  "deserializeDate H serialized st =
     (let representation = unescape serialized
      in allocate (new_object (DateObject (stringToDate H representation))) st)"

text \<open>
  \<open>emptyEntriesHolder\<close>; it is called on entried types only, so its two \<open>throw\<close>s stay
  out of reach.
\<close>

definition emptyEntriesHolder :: "jsstring \<Rightarrow> 'm machine \<Rightarrow> error + 'm val \<times> 'm machine" where
  "emptyEntriesHolder inner st =
     (if inner = ShorthandType_OBJECT then Inr (allocate (new_object PlainObject) st)
      else if inner = ShorthandType_ARRAY then Inr (allocate (new_object (ArrayObject 0)) st)
      else if inner = ShorthandType_SET then Inr (allocate (new_object (SetObject [])) st)
      else if inner = ShorthandType_MAP then Inr (allocate (new_object (MapObject [])) st)
      else Inl NotModelled)"

text \<open>
  An array index: the canonical decimal string of an integer below \<open>2 ^ 32 - 1\<close>. The
  host enumerates the own keys that are array indices first, in ascending order, and the
  other strings after them in the order of their creation.
\<close>

definition array_index :: "jsstring \<Rightarrow> nat option" where
  "array_index key =
     (if key \<noteq> [] \<and> list_all isDigit key \<and> (key = str ''0'' \<or> hd key \<noteq> digit_char 0)
         \<and> int (decimal_value key) < 2 ^ 32 - 1
      then Some (decimal_value key) else None)"

fun insert_property ::
  "jsstring \<Rightarrow> 'm property \<Rightarrow> (jsstring \<times> 'm property) list \<Rightarrow> (jsstring \<times> 'm property) list" where
  "insert_property key p [] = [(key, p)]"
| "insert_property key p ((key', p') # rest) =
     (case array_index key of
        None \<Rightarrow> (key', p') # insert_property key p rest
      | Some i \<Rightarrow>
          (case array_index key' of
             None \<Rightarrow> (key, p) # (key', p') # rest
           | Some j \<Rightarrow> if i < j then (key, p) # (key', p') # rest
                       else (key', p') # insert_property key p rest))"

text \<open>
  The assignment \<open>into[k] = v\<close> in strict code, on an object whose prototype chain has
  no setter and no read-only property for the key: an own property is overwritten when
  writable and the assignment throws a \<open>TypeError\<close> when not; a new property is created
  writable, enumerable and configurable when the object is extensible. A key that is no
  string, the key \<open>__proto__\<close> and the \<open>length\<close> of an array are not modelled.
\<close>

definition assign_property :: "'m object \<Rightarrow> 'm val \<Rightarrow> 'm val \<Rightarrow> error + 'm object" where
  "assign_property object k v =
     (case k of
        VString key \<Rightarrow>
          (if key = str ''__proto__'' then Inl NotModelled
           else case map_of (props object) key of
                  Some p \<Rightarrow>
                    (if writable p
                     then Inr (object\<lparr>props := map (\<lambda>(key', p'). if key' = key then (key', p'\<lparr>pvalue := v\<rparr>)
                                                               else (key', p')) (props object)\<rparr>)
                     else Inl TypeError)
                | None \<Rightarrow>
                    (if \<not> extensible object then Inl TypeError
                     else let p = \<lparr>pvalue = v, configurable = True, enumerable = True, writable = True\<rparr>;
                              object' = object\<lparr>props := insert_property key p (props object)\<rparr>
                          in case kind object of
                               ArrayObject n \<Rightarrow>
                                 (if key = str ''length'' then Inl NotModelled
                                  else case array_index key of
                                         None \<Rightarrow> Inr object'
                                       | Some i \<Rightarrow> Inr (object'\<lparr>kind := ArrayObject (max n (i + 1))\<rparr>))
                             | _ \<Rightarrow> Inr object'))
      | _ \<Rightarrow> Inl NotModelled)"

text \<open>
  \<open>applyPropertyDescriptorFlags\<close>: \<open>Object.defineProperty\<close> with the three attributes
  and no value. The host rejects, with a \<open>TypeError\<close>, a change of a property that is not
  configurable, but for making a writable one read-only.
\<close>

definition applyPropertyDescriptorFlags :: "'m object \<Rightarrow> 'm val \<Rightarrow> int \<Rightarrow> error + 'm object" where
  "applyPropertyDescriptorFlags object property flags =
     (case property of
        VString key \<Rightarrow>
          (let c = has flags IS_CONFIGURABLE; e = has flags IS_ENUMERABLE; w = has flags IS_WRITABLE
           in case map_of (props object) key of
                None \<Rightarrow> Inl NotModelled
              | Some p \<Rightarrow>
                  (if \<not> configurable p \<and> (c \<or> e \<noteq> enumerable p \<or> (\<not> writable p \<and> w))
                   then Inl TypeError
                   else Inr (object\<lparr>props :=
                          map (\<lambda>(key', p'). if key' = key
                                 then (key', p'\<lparr>configurable := c, enumerable := e, writable := w\<rparr>)
                                 else (key', p')) (props object)\<rparr>)))
      | _ \<Rightarrow> Inl NotModelled)"

text \<open>\<open>Object.seal\<close>, \<open>Object.freeze\<close> and \<open>Object.preventExtensions\<close>.\<close>

definition Object_seal :: "'m object \<Rightarrow> 'm object" where
  "Object_seal object =
     object\<lparr>props := map (\<lambda>(key, p). (key, p\<lparr>configurable := False\<rparr>)) (props object),
            extensible := False\<rparr>"

definition Object_freeze :: "'m object \<Rightarrow> 'm object" where
  "Object_freeze object =
     object\<lparr>props := map (\<lambda>(key, p). (key, p\<lparr>configurable := False, writable := False\<rparr>)) (props object),
            extensible := False\<rparr>"

definition Object_preventExtensions :: "'m object \<Rightarrow> 'm object" where
  "Object_preventExtensions object = object\<lparr>extensible := False\<rparr>"

text \<open>
  \<open>applyObjectAccessabilityFlags\<close>. No function of the source calls it: where
  \<open>deserializeEntried\<close> would, it has the comment \<open>(Apply accessability here!)\<close>.
\<close>

definition applyObjectAccessabilityFlags :: "'m object \<Rightarrow> int \<Rightarrow> 'm object" where
  "applyObjectAccessabilityFlags object flags =
     (let o1 = (if has flags IS_SEALED then Object_seal object else object);
          o2 = (if has flags IS_FROZEN then Object_freeze o1 else o1);
          o3 = (if has flags NON_EXTENSIBLE then Object_preventExtensions o2 else o2)
      in o3)"

text \<open>\<open>Map.prototype.set\<close> and \<open>Set.prototype.add\<close>; a key \<open>-0\<close> is stored as \<open>+0\<close>.\<close>

definition canonical_key :: "'m::zero val \<Rightarrow> 'm val" where
  "canonical_key v = (if is_zero v then VNumber (Num False 0) else v)"

definition Map_set :: "('m::zero val \<times> 'm val) list \<Rightarrow> 'm val \<Rightarrow> 'm val \<Rightarrow> ('m val \<times> 'm val) list" where
  "Map_set es k v = map_set es (canonical_key k) v"

definition Set_add :: "'m::zero val list \<Rightarrow> 'm val \<Rightarrow> 'm val list" where
  "Set_add vs v = (if list_ex (\<lambda>x. sameValueZero x v) vs then vs else vs @ [canonical_key v])"

subsection \<open>\<open>deserializeEntried\<close>\<close>

text \<open>
  What the callback of \<open>forEach\<close> does with one decoded pair, \<open>into\<close> being the holder
  at address \<open>a\<close>. For a custom type the three tests on \<open>type.inner\<close> fail and only the
  first assignment runs; a \<open>Map\<close> and a \<open>Set\<close> get no property.
\<close>

definition install_entry ::
  "jsstring \<Rightarrow> int \<Rightarrow> 'm::zero val \<Rightarrow> 'm val \<Rightarrow> 'm object \<Rightarrow> error + 'm object" where
  "install_entry inner flags k v into =
     (case (if isCustom inner then assign_property into k v else Inr into) of
        Inl e \<Rightarrow> Inl e
      | Inr o1 \<Rightarrow>
          (let o2 = (if inner = ShorthandType_MAP
                     then (case kind o1 of MapObject es \<Rightarrow> o1\<lparr>kind := MapObject (Map_set es k v)\<rparr>
                                         | _ \<Rightarrow> o1)
                     else o1);
               o3 = (if inner = ShorthandType_SET
                     then (case kind o2 of SetObject vs \<Rightarrow> o2\<lparr>kind := SetObject (Set_add vs v)\<rparr>
                                         | _ \<Rightarrow> o2)
                     else o2)
           in if inner = ShorthandType_ARRAY \<or> inner = ShorthandType_OBJECT
              then (case assign_property o3 k v of
                      Inl e \<Rightarrow> Inl e
                    | Inr o4 \<Rightarrow> applyPropertyDescriptorFlags o4 k flags)
              else Inr o3))"

text \<open>
  The \<open>forEach\<close> over the extracted entries, the recursive call \<open>this.#deserialize\<close>
  being the parameter \<open>rec\<close>. The holder is read from the heap after the key and the
  value are decoded, since decoding them may have changed it (a cycle).
\<close>

fun forEach_entry ::
  "(jsstring \<Rightarrow> 'm machine \<Rightarrow> error + 'm val \<times> 'm machine) \<Rightarrow> jsstring \<Rightarrow> addr
   \<Rightarrow> (jsstring \<times> jsstring) list \<Rightarrow> 'm::zero machine \<Rightarrow> error + 'm machine" where
  "forEach_entry rec inner a [] st = Inr st"
| "forEach_entry rec inner a ((key, val) # rest) st =
     (case SerializedBlockInfo key of
        Inl e \<Rightarrow> Inl e
      | Inr info \<Rightarrow>
          (case descriptor info of
             None \<Rightarrow> Inl (DeserializerError DescriptorNotInferable)
           | Some d \<Rightarrow>
               (case rec key st of
                  Inl e \<Rightarrow> Inl e
                | Inr (k, st1) \<Rightarrow>
                    (case rec val st1 of
                       Inl e \<Rightarrow> Inl e
                     | Inr (v, st2) \<Rightarrow>
                         (case install_entry inner d k v (heap st2 ! a) of
                            Inl e \<Rightarrow> Inl e
                          | Inr into \<Rightarrow>
                              forEach_entry rec inner a rest
                                (st2\<lparr>heap := (heap st2)[a := into]\<rparr>))))))"

definition deserializeEntried ::
  "(jsstring \<Rightarrow> 'm machine \<Rightarrow> error + 'm val \<times> 'm machine) \<Rightarrow> jsstring \<Rightarrow> jsstring \<Rightarrow> addr
   \<Rightarrow> 'm::zero machine \<Rightarrow> error + 'm machine" where
  "deserializeEntried rec serialized inner a st =
     (case extractEntries serialized of
        Inl e \<Rightarrow> Inl e
      | Inr es \<Rightarrow> forEach_entry rec inner a es st)"

subsection \<open>\<open>#deserialize\<close>\<close>

text \<open>
  The lookup \<open>this.#dependencies.get(identifier)\<close>: the keys are the indices that
  \<open>setupDependencies\<close> has set, and a number finds one when it is that integer (\<open>-0\<close>
  finds 0).
\<close>

definition dependency_get :: "'m::zero host \<Rightarrow> (nat \<rightharpoonup> ctor) \<Rightarrow> 'm jsnum \<Rightarrow> ctor option" where
  "dependency_get H deps identifier =
     (case identifier of
        NaN \<Rightarrow> None
      | Num negative m \<Rightarrow>
          (if m = 0 then deps 0
           else if negative then None
           else case numberAsIndex H m of None \<Rightarrow> None | Some i \<Rightarrow> deps i))"

text \<open>The eager allocation of the holder; \<open>value\<close> stays \<open>undefined\<close> otherwise.\<close>

definition allocate_holder ::
  "'m::zero host \<Rightarrow> block_info \<Rightarrow> 'm machine \<Rightarrow> error + 'm val \<times> 'm machine" where
  "allocate_holder H info st =
     (if map_option fst (reference info) \<noteq> Some Get \<and> (isEntried (type info) \<or> isCustom (type info))
      then (if isCustom (type info)
            then (case getCustomTypeReference H (type info) of
                    Inl e \<Rightarrow> Inl e
                  | Inr identifier \<Rightarrow>
                      (case dependency_get H (dependencies (self st)) identifier of
                         None \<Rightarrow> Inl (DeserializerError DependencyDoesNotExist)
                       | Some inheritied \<Rightarrow> Inr (allocate (new_object (Instance inheritied)) st)))
            else emptyEntriesHolder (type info) st)
      else Inr (VUndefined, st))"

text \<open>
  The rest of \<open>#deserialize\<close> after the reference has been looked at: the payload is
  decoded by its type and, when the block declares a reference, the id is bound to the
  result (for a holder a second time, to the same object).
\<close>

definition deserialize_payload ::
  "(jsstring \<Rightarrow> 'm machine \<Rightarrow> error + 'm val \<times> 'm machine) \<Rightarrow> 'm::zero host \<Rightarrow> block_info
   \<Rightarrow> 'm val \<Rightarrow> 'm machine \<Rightarrow> error + 'm val \<times> 'm machine" where
  "deserialize_payload rec H info v st =
     (case serializedValue info of
        None \<Rightarrow> Inl (DeserializerError ValueExpected)
      | Some inner \<Rightarrow>
          (case (if isCustom (type info) \<or> isEntried (type info)
                 then (case v of
                         VObject a \<Rightarrow>
                           (case deserializeEntried rec inner (type info) a st of
                              Inl e \<Rightarrow> Inl e
                            | Inr st' \<Rightarrow> Inr (v, st'))
                       | _ \<Rightarrow> Inl NotModelled)
                 else if type info = ShorthandType_FUNCTION
                   then (case deserializeFunction (d_config (self st)) inner of
                           Inl e \<Rightarrow> Inl e
                         | Inr f \<Rightarrow> Inr (f, st))
                 else if type info = ShorthandType_BOOLEAN
                   then (case deserializeBoolean inner of
                           Inl e \<Rightarrow> Inl e
                         | Inr b \<Rightarrow> Inr (VBoolean b, st))
                 else if type info = ShorthandType_NUMBER
                   then Inr (VNumber (deserializeNumber H inner), st)
                 else if type info = ShorthandType_STRING
                   then Inr (VString (deserializeString inner), st)
                 else if type info = ShorthandType_BIGINT
                   then (case deserializeBigInt inner of
                           Inl e \<Rightarrow> Inl e
                         | Inr i \<Rightarrow> Inr (VBigInt i, st))
                 else if type info = ShorthandType_DATE
                   then Inr (deserializeDate H inner st)
                 else Inl (DeserializerError (UnknownType (type info)))) of
             Inl e \<Rightarrow> Inl e
           | Inr (v', st') \<Rightarrow>
               (case reference info of
                  None \<Rightarrow> Inr (v', st')
                | Some (action, identifier) \<Rightarrow> Inr (v', setReference identifier v' st'))))"

definition deserialize_block ::
  "(jsstring \<Rightarrow> 'm machine \<Rightarrow> error + 'm val \<times> 'm machine) \<Rightarrow> 'm::zero host \<Rightarrow> jsstring
   \<Rightarrow> 'm machine \<Rightarrow> error + 'm val \<times> 'm machine" where
  "deserialize_block rec H serialized st0 =
     (let st = st0\<lparr>self := (self st0)\<lparr>d_ticks := d_ticks (self st0) + 1\<rparr>\<rparr>
      in case SerializedBlockInfo serialized of
           Inl e \<Rightarrow> Inl e
         | Inr info \<Rightarrow>
             (if isSingleton (type info)
              then (if type info = ShorthandType_UNDEFINED then Inr (VUndefined, st)
                    else Inr (VNull, st))
              else case allocate_holder H info st of
                     Inl e \<Rightarrow> Inl e
                   | Inr (v, st1) \<Rightarrow>
                       (case reference info of
                          Some (Get, identifier) \<Rightarrow>
                            (case getReference identifier st1 of
                               Inl e \<Rightarrow> Inl e
                             | Inr r \<Rightarrow> Inr (r, st1))
                        | Some (Set, identifier) \<Rightarrow>
                            deserialize_payload rec H info v (setReference identifier v st1)
                        | None \<Rightarrow> deserialize_payload rec H info v st1)))"

text \<open>
  \<open>#deserialize\<close> calls itself on fragments of its argument, which are shorter; here
  the recursion runs on a bound, and \<open>OutOfFuel\<close> says the bound was reached.
\<close>

primrec deserialize_internal ::
  "nat \<Rightarrow> 'm::zero host \<Rightarrow> jsstring \<Rightarrow> 'm machine \<Rightarrow> error + 'm val \<times> 'm machine" where
  "deserialize_internal 0 H serialized st = Inl OutOfFuel"
| "deserialize_internal (Suc n) H serialized st =
     deserialize_block (deserialize_internal n H) H serialized st"

subsection \<open>\<open>deserialize\<close>\<close>

text \<open>\<open>indexOf\<close> with a pattern of several code units, and \<open>split\<close> at a separator.\<close>

fun indexOf_string :: "jsstring \<Rightarrow> jsstring \<Rightarrow> int" where
  "indexOf_string [] pattern = (if pattern = [] then 0 else - 1)"
| "indexOf_string (c # cs) pattern =
     (if starts_with pattern (c # cs) then 0
      else let i = indexOf_string cs pattern in if i = - 1 then - 1 else i + 1)"

text \<open>
  The \<open>forEach\<close> of \<open>setupDependencies\<close> over the required names with their indices;
  \<open>requirements.lastIndexOf(dependency) !== index\<close> says that the name occurs again
  later in the list.
\<close>

fun register_dependencies ::
  "ctor list \<Rightarrow> jsstring list \<Rightarrow> nat \<Rightarrow> (nat \<rightharpoonup> ctor) \<Rightarrow> error + (nat \<rightharpoonup> ctor)" where
  "register_dependencies provided [] index deps = Inr deps"
| "register_dependencies provided (dependency # rest) index deps =
     (if dependency \<in> set rest then Inl (DeserializerError (DependencyListedTwice dependency))
      else case find (\<lambda>c. ctor_name c = dependency) provided of
             None \<Rightarrow> Inl (DeserializerError (DependencyNotProvided dependency))
           | Some c \<Rightarrow> register_dependencies provided rest (index + 1) (deps(index \<mapsto> c)))"

text \<open>
  \<open>setupDependencies\<close>. The two messages of the source are interchanged (a missing
  opening is reported as a list that was not closed); the constructors follow the
  messages.
\<close>

definition setupDependencies ::
  "jsstring \<Rightarrow> ctor list \<Rightarrow> 'm machine \<Rightarrow> error + jsstring \<times> 'm machine" where
  "setupDependencies serialized providedDependencies st =
     (let s = indexOf_string serialized DEPENDENCIES_S;
          e = indexOf_string serialized DEPENDENDIES_E
      in if s = INDEX_NOT_FOUND \<and> e = INDEX_NOT_FOUND then Inr (serialized, st)
         else if s = INDEX_NOT_FOUND then Inl (DeserializerError DependencyListNotClosed)
         else if e = INDEX_NOT_FOUND then Inl (DeserializerError DependencyListNeverOpened)
         else let requirements =
                    map unescape (split_on ENTRY_SEPERATOR
                      (slice serialized (s + int (length DEPENDENCIES_S)) e))
              in case register_dependencies providedDependencies requirements 0
                        (dependencies (self st)) of
                   Inl err \<Rightarrow> Inl err
                 | Inr deps \<Rightarrow>
                     Inr (slice_from serialized (e + int (length DEPENDENDIES_E)),
                          st\<lparr>self := (self st)\<lparr>dependencies := deps\<rparr>\<rparr>))"

text \<open>
  \<open>deserialize\<close>. Every recursive call of \<open>#deserialize\<close> is on a string shorter than
  its caller's, so the length of the input and one bounds the depth.
\<close>

definition deserialize ::
  "'m::zero host \<Rightarrow> jsstring \<Rightarrow> ctor list \<Rightarrow> 'm machine \<Rightarrow> error + 'm val \<times> 'm machine" where
  "deserialize H serialized0 dependencies_given st =
     (case setupDependencies serialized0 dependencies_given st of
        Inl e \<Rightarrow> Inl e
      | Inr (serialized, st') \<Rightarrow> deserialize_internal (Suc (length serialized)) H serialized st')"

section \<open>The calls of a traversal\<close>

text \<open>
  The calls of \<open>this.#deserialize\<close> that the \<open>forEach\<close> of \<open>deserializeEntried\<close> makes,
  with the state each is made in: on the key of an entry, in the state the entries before
  it have left; on its value, once the key is decoded; on the entries after it, once the
  pair is installed in the holder.
\<close>

inductive entry_call ::
  "(jsstring \<Rightarrow> 'm machine \<Rightarrow> error + 'm val \<times> 'm machine) \<Rightarrow> jsstring \<Rightarrow> addr
   \<Rightarrow> (jsstring \<times> jsstring) list \<Rightarrow> 'm::zero machine \<Rightarrow> jsstring \<Rightarrow> 'm machine \<Rightarrow> bool"
  for rec :: "jsstring \<Rightarrow> 'm machine \<Rightarrow> error + 'm val \<times> 'm::zero machine"
    and inner :: jsstring and a :: addr
where
  on_key:
    "SerializedBlockInfo key = Inr info \<Longrightarrow> descriptor info = Some d \<Longrightarrow>
     entry_call rec inner a ((key, val) # rest) st key st"
| on_value:
    "SerializedBlockInfo key = Inr info \<Longrightarrow> descriptor info = Some d \<Longrightarrow>
     rec key st = Inr (k, st1) \<Longrightarrow>
     entry_call rec inner a ((key, val) # rest) st val st1"
| on_rest:
    "SerializedBlockInfo key = Inr info \<Longrightarrow> descriptor info = Some d \<Longrightarrow>
     rec key st = Inr (k, st1) \<Longrightarrow> rec val st1 = Inr (v, st2) \<Longrightarrow>
     install_entry inner d k v (heap st2 ! a) = Inr into \<Longrightarrow>
     entry_call rec inner a rest (st2\<lparr>heap := (heap st2)[a := into]\<rparr>) block st' \<Longrightarrow>
     entry_call rec inner a ((key, val) # rest) st block st'"

text \<open>
  The calls that one call of \<open>#deserialize\<close> makes: those of \<open>deserializeEntried\<close>, when
  the block is no singleton and no pointer, has a payload and an entried or custom type,
  and its holder is allocated; a block that declares a reference has bound the holder
  before.
\<close>

inductive nested_call ::
  "(jsstring \<Rightarrow> 'm machine \<Rightarrow> error + 'm val \<times> 'm machine) \<Rightarrow> 'm::zero host \<Rightarrow> jsstring
   \<Rightarrow> 'm machine \<Rightarrow> jsstring \<Rightarrow> 'm machine \<Rightarrow> bool"
  for rec :: "jsstring \<Rightarrow> 'm machine \<Rightarrow> error + 'm val \<times> 'm::zero machine"
    and H :: "'m host"
where
  undeclared:
    "SerializedBlockInfo serialized = Inr info \<Longrightarrow> \<not> isSingleton (type info) \<Longrightarrow>
     allocate_holder H info (st0\<lparr>self := (self st0)\<lparr>d_ticks := d_ticks (self st0) + 1\<rparr>\<rparr>)
       = Inr (VObject a, st1) \<Longrightarrow>
     reference info = None \<Longrightarrow>
     serializedValue info = Some payload \<Longrightarrow> isCustom (type info) \<or> isEntried (type info) \<Longrightarrow>
     extractEntries payload = Inr es \<Longrightarrow>
     entry_call rec (type info) a es st1 block st' \<Longrightarrow>
     nested_call rec H serialized st0 block st'"
| declared:
    "SerializedBlockInfo serialized = Inr info \<Longrightarrow> \<not> isSingleton (type info) \<Longrightarrow>
     allocate_holder H info (st0\<lparr>self := (self st0)\<lparr>d_ticks := d_ticks (self st0) + 1\<rparr>\<rparr>)
       = Inr (VObject a, st1) \<Longrightarrow>
     reference info = Some (Set, ident) \<Longrightarrow>
     serializedValue info = Some payload \<Longrightarrow> isCustom (type info) \<or> isEntried (type info) \<Longrightarrow>
     extractEntries payload = Inr es \<Longrightarrow>
     entry_call rec (type info) a es (setReference ident (VObject a) st1) block st' \<Longrightarrow>
     nested_call rec H serialized st0 block st'"


section \<open>Instances for the concrete runs\<close>

text \<open>
  A host whose magnitudes are the natural numbers, written in decimal; it stands in
  where a closed statement needs some host, and no run below reads a date.
\<close>

definition decimal_host :: "nat host" where
  "decimal_host =
     \<lparr>numberToString = nat_toString,
      stringToNumber = (\<lambda>s. if s \<noteq> [] \<and> list_all isDigit s then Num False (decimal_value s) else NaN),
      numberAsIndex = Some,
      dateToString = (\<lambda>t. []),
      stringToDate = (\<lambda>s. NaN)\<rparr>"

text \<open>The default configuration: no debug output, functions and metadata off.\<close>

definition default_configuration :: configuration where
  "default_configuration = \<lparr>DebugMode = False, Functions = False, Metadata = False\<rparr>"

definition new_Serializer :: "configuration \<Rightarrow> 'm serializer" where
  "new_Serializer cfg =
     \<lparr>config = cfg, ticks = 0, reference_ids = 0, reference_value_map = [],
      reference_usage = 0, custom_constructors = []\<rparr>"

text \<open>A new \<open>Deserializer\<close> in a memory that holds the objects of \<open>h\<close>.\<close>

definition fresh_machine :: "'m heap \<Rightarrow> 'm machine" where
  "fresh_machine h = \<lparr>self = new_Deserializer default_configuration, heap = h\<rparr>"

text \<open>The value a call returns, without the state it leaves.\<close>

definition returned :: "error + 'a \<times> 's \<Rightarrow> error + 'a" where
  "returned r = (case r of Inl e \<Rightarrow> Inl e | Inr (x, s) \<Rightarrow> Inr x)"

text \<open>The number of places of a string at which a text occurs.\<close>

fun occurrences :: "jsstring \<Rightarrow> jsstring \<Rightarrow> nat" where
  "occurrences pattern [] = 0"
| "occurrences pattern (c # cs) =
     (if starts_with pattern (c # cs) then 1 else 0) + occurrences pattern cs"

text \<open>The value and the heap a call of \<open>deserialize\<close> leaves.\<close>

definition outcome :: "error + 'm val \<times> 'm machine \<Rightarrow> error + 'm val \<times> 'm heap" where
  "outcome r = (case r of Inl e \<Rightarrow> Inl e | Inr (v, st) \<Rightarrow> Inr (v, heap st))"

text \<open>The read \<open>v.key\<close> of an own property.\<close>

definition get_property :: "'m heap \<Rightarrow> 'm val \<Rightarrow> jsstring \<Rightarrow> 'm val option" where
  "get_property h v key =
     (case v of
        VObject a \<Rightarrow> (if a < length h then map_option pvalue (map_of (props (h ! a)) key) else None)
      | _ \<Rightarrow> None)"

text \<open>The heap after \<open>x = {}; x.self = x\<close>, with \<open>x\<close> at address 0.\<close>

definition self_referential :: "'m heap" where
  "self_referential =
     [\<lparr>kind = PlainObject,
       props = [(str ''self'',
                 \<lparr>pvalue = VObject 0, configurable = True, enumerable = True, writable = True\<rparr>)],
       extensible = True\<rparr>]"




section \<open>Proofs\<close>

subsection \<open>Digits and the codec\<close>

lemma str_simps: "str [] = []" "str (c # cs) = of_char c # str cs"
  by (simp_all add: str_def)


lemma unat_digit_char: "d < 10 \<Longrightarrow> unat (digit_char d) = 48 + d"
proof -
  assume "d < 10"
  then have "(48 + d) mod 2 ^ LENGTH(16) = 48 + d" by simp
  then show ?thesis
    unfolding digit_char_def by (simp only: unat_of_nat)
qed

lemma isDigit_digit_char: "d < 10 \<Longrightarrow> isDigit (digit_char d)"
  by (simp add: isDigit_def word_le_nat_alt unat_digit_char)

lemma digit_value_digit_char: "d < 10 \<Longrightarrow> digit_value (digit_char d) = d"
  by (simp add: digit_value_def unat_digit_char)

lemma nat_toString_digits: "\<forall>c \<in> set (nat_toString n). isDigit c"
proof (induction n rule: nat_toString.induct)
  case (1 n)
  then show ?case
    by (subst nat_toString.simps) (auto simp: isDigit_digit_char)
qed

lemma nat_toString_nonempty: "nat_toString n \<noteq> []"
  by (subst nat_toString.simps) simp

lemma decimal_value_snoc: "decimal_value (ds @ [c]) = 10 * decimal_value ds + digit_value c"
  by (simp add: decimal_value_def)

lemma decimal_value_nat_toString: "decimal_value (nat_toString n) = n"
proof (induction n rule: nat_toString.induct)
  case (1 n)
  show ?case
  proof (cases "n < 10")
    case True
    then show ?thesis
      by (subst nat_toString.simps) (simp add: decimal_value_def digit_value_digit_char)
  next
    case False
    with 1 have "decimal_value (nat_toString (n div 10)) = n div 10" by simp
    with False show ?thesis
      by (subst nat_toString.simps) (simp add: decimal_value_snoc digit_value_digit_char)
  qed
qed

lemma not_isDigit_ESCAPE_E: "\<not> isDigit ESCAPE_E"
  by (simp add: isDigit_def ESCAPE_E_def)

lemma takeWhile_digits_then: "\<forall>c \<in> set ds. isDigit c \<Longrightarrow> \<not> isDigit e \<Longrightarrow>
    takeWhile isDigit (ds @ e # rest) = ds \<and> dropWhile isDigit (ds @ e # rest) = e # rest"
  by (induction ds) auto

lemma bit_length_le: "n < 2 ^ k \<Longrightarrow> bit_length n \<le> k"
proof (induction k arbitrary: n)
  case 0
  then show ?case by (simp add: bit_length.simps)
next
  case (Suc k)
  then have "n div 2 < 2 ^ k" by simp
  then have "bit_length (n div 2) \<le> k" by (rule Suc.IH)
  then show ?case by (subst bit_length.simps) simp
qed

lemma round_double_small: "n < 2 ^ 53 \<Longrightarrow> round_double n = n"
  using bit_length_le [of n 53] by (simp add: round_double_def)

lemma reserved_code_small: "c \<in> set RESERVED_CHARACTERS \<Longrightarrow> unat c < 2 ^ 53"
proof -
  have "unat c < 2 ^ 16" using unsigned_less [of c] by simp
  also have "(2::nat) ^ 16 < 2 ^ 53" by simp
  finally show ?thesis .
qed

lemma ESCAPE_S_reserved: "ESCAPE_S \<in> set RESERVED_CHARACTERS"
  by (simp add: ESCAPE_S_def RESERVED_CHARACTERS_def str_def)

lemma unescape_escape_char: "unescape (escape_char c @ rest) = c # unescape rest"
proof (cases "c \<in> set RESERVED_CHARACTERS")
  case True
  let ?ds = "nat_toString (unat c)"
  have split: "takeWhile isDigit (?ds @ ESCAPE_E # rest) = ?ds"
    "dropWhile isDigit (?ds @ ESCAPE_E # rest) = ESCAPE_E # rest"
    using takeWhile_digits_then [OF nat_toString_digits not_isDigit_ESCAPE_E] by auto
  have "Number_of_digits ?ds = unat c"
    using reserved_code_small [OF True]
    by (simp add: Number_of_digits_def decimal_value_nat_toString round_double_small)
  then have "fromCharCode (Number_of_digits ?ds) = c"
    by (simp add: fromCharCode_def)
  with True split show ?thesis
    by (simp add: escape_char_def nat_toString_nonempty)
next
  case False
  then have "c \<noteq> ESCAPE_S" using ESCAPE_S_reserved by auto
  with False show ?thesis by (simp add: escape_char_def)
qed

lemma reserved_only_in_escapes_escape_char:
  "reserved_only_in_escapes (escape_char c @ rest) = reserved_only_in_escapes rest"
proof (cases "c \<in> set RESERVED_CHARACTERS")
  case True
  let ?ds = "nat_toString (unat c)"
  have split: "takeWhile isDigit (?ds @ ESCAPE_E # rest) = ?ds"
    "dropWhile isDigit (?ds @ ESCAPE_E # rest) = ESCAPE_E # rest"
    using takeWhile_digits_then [OF nat_toString_digits not_isDigit_ESCAPE_E] by auto
  with True show ?thesis
    by (simp add: escape_char_def nat_toString_nonempty)
next
  case False
  then have "c \<noteq> ESCAPE_S" using ESCAPE_S_reserved by auto
  with False show ?thesis by (simp add: escape_char_def)
qed

text \<open>
  C3. For every string \<open>s\<close> of UTF-16 code units, unescaping the escaped string gives
  \<open>s\<close> back, and every reserved character that occurs in \<open>escape s\<close> lies inside an
  escape sequence \<open>&<decimal char code>;\<close>.
\<close>

theorem escape_law:
  "unescape (escape s) = s \<and> reserved_only_in_escapes (escape s)"
proof (induction s)
  case Nil
  show ?case by (simp add: escape_def)
next
  case (Cons c s)
  have "escape (c # s) = escape_char c @ escape s" by (simp add: escape_def)
  with Cons show ?case
    by (simp add: unescape_escape_char reserved_only_in_escapes_escape_char)
qed

subsection \<open>The entry tokenizer\<close>


lemma split_on_nonempty: "split_on sep xs \<noteq> []"
  by (induction xs) (auto split: list.splits)

lemma split_on_other: "x \<noteq> sep \<Longrightarrow>
   split_on sep (x # xs) = (x # hd (split_on sep xs)) # tl (split_on sep xs)"
  using split_on_nonempty [of sep xs] by (auto split: list.splits)

lemma resume_entry_start: "resume_entry [] [] e = fragments e"
  using split_on_nonempty [of KeyValueSep e]
  by (auto simp: resume_entry_def fragments_def split: list.splits)

lemma resume_entry_Nil: "resume_entry b1 b2 [] = (if b1 \<noteq> [] then b2 @ [b1] else b2)"
  by (simp add: resume_entry_def)

lemma resume_entry_Verbatim:
  "resume_entry b1 b2 (Verbatim c # e) = resume_entry (b1 @ [c]) b2 e"
  using split_on_nonempty [of KeyValueSep e]
  by (cases "split_on KeyValueSep e") (simp_all add: resume_entry_def)

lemma resume_entry_KeyValueSep:
  "resume_entry b1 b2 (KeyValueSep # e) =
     resume_entry [] (if b1 \<noteq> [] then b2 @ [b1] else b2) e"
  using split_on_nonempty [of KeyValueSep e]
  by (cases "split_on KeyValueSep e") (simp_all add: resume_entry_def)

lemma resume_Nil:
  "resume t [] = finish (Inr t)"
  by (simp add: resume_def finish_def resume_entry_Nil flush1_def flush2_def put_after_def)

lemma resume_Verbatim:
  "resume t (Verbatim c # ts) = resume (t\<lparr>buffer_1 := buffer_1 t @ [c]\<rparr>) ts"
  using split_on_nonempty [of EntrySep ts] 
  by (cases "split_on EntrySep ts") (simp_all add: resume_def resume_entry_Verbatim del: collect_pairs.simps)

lemma resume_KeyValueSep:
  "resume t (KeyValueSep # ts) = resume (flush1 t) ts"
  using split_on_nonempty [of EntrySep ts] 
  by (cases "split_on EntrySep ts") (simp_all add: resume_def resume_entry_KeyValueSep flush1_def del: collect_pairs.simps)

lemma resume_EntrySep:
  "resume t (EntrySep # ts) =
     (case flush2 (flush1 t) of Inl e \<Rightarrow> Inl e | Inr t' \<Rightarrow> resume t' ts)"
proof (cases "split_on EntrySep ts")
  case Nil
  then show ?thesis using split_on_nonempty [of EntrySep ts] by simp
next
  case (Cons e es)
  let ?F = "if buffer_1 t \<noteq> [] then buffer_2 t @ [buffer_1 t] else buffer_2 t"
  have b2: "buffer_2 (flush1 t) = ?F" by (simp add: flush1_def)
  have b1: "buffer_1 (flush1 t) = []" by (simp add: flush1_def)
  have o: "outputs (flush1 t) = outputs t" by (simp add: flush1_def)
  have lhs: "resume t (EntrySep # ts) =
      put_after (outputs t) (collect_pairs (?F # fragments e # map fragments es))"
    using Cons by (simp add: resume_def resume_entry_Nil del: collect_pairs.simps)
  have rest: "\<And>t'. buffer_1 t' = [] \<Longrightarrow> buffer_2 t' = [] \<Longrightarrow> resume t' ts =
      put_after (outputs t') (collect_pairs (fragments e # map fragments es))"
    using Cons by (simp add: resume_def resume_entry_start del: collect_pairs.simps)
  consider "?F = []" | "?F \<noteq> []" "length ?F \<noteq> 2" | "length ?F = 2" by fastforce
  then show ?thesis
  proof cases
    case 1
    then have "flush2 (flush1 t) = Inr (flush1 t)"
      using b2 by (simp add: flush2_def)
    with 1 lhs rest [of "flush1 t"] b1 b2 o show ?thesis by simp
  next
    case 2
    then have "flush2 (flush1 t) = Inl (DeserializerError (NonKeyValuePair (length ?F)))"
      using b2 by (simp add: flush2_def)
    with 2 lhs show ?thesis by (simp add: put_after_def)
  next
    case 3
    let ?t' = "(flush1 t)\<lparr>outputs := outputs t @ [(?F ! 0, ?F ! 1)], buffer_2 := []\<rparr>"
    from 3 have f2: "flush2 (flush1 t) = Inr ?t'"
      using b2 o by (auto simp add: flush2_def)
    have "resume ?t' ts = put_after (outputs ?t') (collect_pairs (fragments e # map fragments es))"
      by (rule rest) (simp_all add: b1)
    moreover from 3 have "?F \<noteq> []" by auto
    ultimately show ?thesis
      using 3 lhs f2 by (auto simp: put_after_def split: sum.splits)
  qed
qed

lemma resume_same:
  "buffer_1 t = buffer_1 t' \<Longrightarrow> buffer_2 t = buffer_2 t' \<Longrightarrow> outputs t = outputs t' \<Longrightarrow>
   resume t ts = resume t' ts"
  by (cases "split_on EntrySep ts") (simp_all add: resume_def del: collect_pairs.simps)

lemma finish_Inl: "finish (Inl e) = Inl e"
  by (simp add: finish_def)

lemma depth_flush1: "depth (flush1 t) = depth t"
  by (simp add: flush1_def)

lemma depth_flush2: "flush2 t = Inr t' \<Longrightarrow> depth t' = depth t"
  by (auto simp: flush2_def split: if_splits)

lemma classify_resume:
  "finish (scan_interior cs t) = resume t (classify (depth t) cs)"
proof (induction cs arbitrary: t)
  case Nil
  show ?case by (simp add: resume_Nil)
next
  case (Cons c cs)
  consider (brace) "c = ENTRIED_VALUE_S \<or> c = ENTRIED_VALUE_E"
    | (colon) "c \<noteq> ENTRIED_VALUE_S" "c \<noteq> ENTRIED_VALUE_E" "c = KEY_VALUE_SEPERATOR" "depth t = 0"
    | (comma) "c \<noteq> ENTRIED_VALUE_S" "c \<noteq> ENTRIED_VALUE_E" "c \<noteq> KEY_VALUE_SEPERATOR"
        "c = ENTRY_SEPERATOR" "depth t = 0"
    | (other) "c \<noteq> ENTRIED_VALUE_S" "c \<noteq> ENTRIED_VALUE_E"
        "\<not> (c = KEY_VALUE_SEPERATOR \<and> depth t = 0)" "\<not> (c = ENTRY_SEPERATOR \<and> depth t = 0)"
    by blast
  then show ?case
  proof cases
    case brace
    let ?d = "depth t + (if c = ENTRIED_VALUE_S then 1 else - 1)"
    let ?t' = "t\<lparr>depth := ?d, buffer_1 := buffer_1 t @ [c]\<rparr>"
    have neq: "ENTRIED_VALUE_S \<noteq> ENTRIED_VALUE_E" by (simp add: token_defs)
    have "scan_character c t = Inr ?t'" using brace by (simp add: scan_character_def)
    then have "finish (scan_interior (c # cs) t) = resume ?t' (classify ?d cs)"
      using Cons [of ?t'] by simp
    also have "\<dots> = resume (t\<lparr>buffer_1 := buffer_1 t @ [c]\<rparr>) (classify ?d cs)"
      by (rule resume_same) simp_all
    also have "\<dots> = resume t (classify (depth t) (c # cs))"
      using brace neq by (auto simp: resume_Verbatim)
    finally show ?thesis .
  next
    case colon
    then have "scan_character c t = Inr (flush1 t)" by (simp add: scan_character_def)
    then have "finish (scan_interior (c # cs) t) = resume (flush1 t) (classify (depth t) cs)"
      using Cons [of "flush1 t"] by (simp add: depth_flush1)
    with colon show ?thesis by (simp add: resume_KeyValueSep)
  next
    case comma
    then have sc: "scan_character c t = flush2 (flush1 t)" by (simp add: scan_character_def)
    show ?thesis
    proof (cases "flush2 (flush1 t)")
      case (Inl e)
      with sc comma show ?thesis by (simp add: resume_EntrySep finish_Inl)
    next
      case (Inr t')
      then have "depth t' = depth t" using depth_flush2 depth_flush1 by metis
      with Inr sc comma Cons [of t'] show ?thesis by (simp add: resume_EntrySep)
    qed
  next
    case other
    let ?t' = "t\<lparr>buffer_1 := buffer_1 t @ [c]\<rparr>"
    have "scan_character c t = Inr ?t'" using other by (auto simp add: scan_character_def)
    then have "finish (scan_interior (c # cs) t) = resume ?t' (classify (depth t) cs)"
      using Cons [of ?t'] by simp
    with other show ?thesis by (auto simp: resume_Verbatim)
  qed
qed

lemma resume_start: "resume tokenizer_start ts = collect_pairs (map fragments (split_on EntrySep ts))"
proof (cases "split_on EntrySep ts")
  case Nil
  then show ?thesis using split_on_nonempty [of EntrySep ts] by simp
next
  case (Cons e es)
  have "put_after [] r = r" for r :: "error + (jsstring \<times> jsstring) list"
    by (cases r) (simp_all add: put_after_def)
  with Cons show ?thesis
    by (simp add: resume_def tokenizer_start_def resume_entry_start del: collect_pairs.simps)
qed

lemma scan_body: "finish (scan_interior body tokenizer_start) = pairs_at_depth_zero body"
  using classify_resume [of body tokenizer_start]
  by (simp add: resume_start pairs_at_depth_zero_def) (simp add: tokenizer_start_def)

lemma takeWhile_until: "c \<notin> set pre \<Longrightarrow> takeWhile (\<lambda>x. x \<noteq> c) (pre @ c # rest) = pre"
  by (induction pre) auto

lemma indexOf_first: "c \<notin> set pre \<Longrightarrow> indexOf (pre @ c # rest) c = int (length pre)"
  by (simp add: indexOf_def takeWhile_until)

lemma lastIndexOf_last:
  "c \<notin> set post \<Longrightarrow> lastIndexOf (pre @ c # post) c = int (length pre)"
  using takeWhile_until [of c "rev post" "rev pre"]
  by (simp add: lastIndexOf_def)

lemma slice_middle:
  "slice (pre @ c # body @ d # post) (int (length pre) + 1) (int (length pre + 1 + length body)) = body"
proof -
  have "clamp_index (int (length pre) + 1) (length (pre @ c # body @ d # post)) = length pre + 1"
    by (simp add: clamp_index_def)
  moreover have "clamp_index (int (length pre + 1 + length body)) (length (pre @ c # body @ d # post))
      = length pre + 1 + length body"
    by (simp add: clamp_index_def)
  ultimately show ?thesis
    by (simp add: slice_def)
qed

text \<open>
  C7. For a serialized entries block whose first opening bracket and last closing bracket
  enclose \<open>body\<close>, \<open>extractEntries\<close> gives the ordered pairs that the key-value
  and entry separators at brace depth zero cut out of \<open>body\<close>, every other character
  kept verbatim in its fragment; an entry with fragments other than a key and a value is
  the decode error \<open>NonKeyValuePair\<close>, and the empty body gives no pair.
\<close>

theorem entry_tokenizer:
  assumes "ENTRIED_VALUE_S \<notin> set pre" and "ENTRIED_VALUE_E \<notin> set post"
  shows "extractEntries (pre @ ENTRIED_VALUE_S # body @ ENTRIED_VALUE_E # post)
           = pairs_at_depth_zero body
         \<and> pairs_at_depth_zero [] = Inr []"
proof -
  let ?s = "pre @ ENTRIED_VALUE_S # body @ ENTRIED_VALUE_E # post"
  have i: "indexOf ?s ENTRIED_VALUE_S = int (length pre)"
    using assms(1) by (rule indexOf_first)
  have "lastIndexOf ((pre @ ENTRIED_VALUE_S # body) @ ENTRIED_VALUE_E # post) ENTRIED_VALUE_E
      = int (length (pre @ ENTRIED_VALUE_S # body))"
    using assms(2) by (rule lastIndexOf_last)
  then have l: "lastIndexOf ?s ENTRIED_VALUE_E = int (length pre + 1 + length body)" by simp
  have sl: "slice ?s (int (length pre) + 1) (int (length pre + 1 + length body)) = body"
    by (rule slice_middle)
  have "extractEntries ?s = finish (scan_interior body tokenizer_start)"
    unfolding extractEntries_def i l Let_def sl finish_def
    by (simp add: INDEX_NOT_FOUND_def)
  moreover have "pairs_at_depth_zero [] = Inr []"
    by (simp add: pairs_at_depth_zero_def fragments_def)
  ultimately show ?thesis by (simp add: scan_body)
qed

theorem entry_tokenizer_witness:
  "ENTRIED_VALUE_S \<notin> set (str ''3|'') \<and> ENTRIED_VALUE_E \<notin> set (str [])
   \<and> extractEntries (str ''3|{[1|a]%28:3|{[1|b]%28:2|1,[1|c]%28:#0},[1|d]%28:0}'')
       = Inr [(str ''[1|a]%28'', str ''3|{[1|b]%28:2|1,[1|c]%28:#0}''), (str ''[1|d]%28'', str ''0'')]"
proof -
  have a: "ENTRIED_VALUE_S \<notin> set (str ''3|'')" by (simp add: str_simps token_defs)
  have b: "ENTRIED_VALUE_E \<notin> set (str [])" by (simp add: str_simps)
  have "pairs_at_depth_zero (str ''[1|a]%28:3|{[1|b]%28:2|1,[1|c]%28:#0},[1|d]%28:0'')
       = Inr [(str ''[1|a]%28'', str ''3|{[1|b]%28:2|1,[1|c]%28:#0}''), (str ''[1|d]%28'', str ''0'')]"
    by (simp add: pairs_at_depth_zero_def fragments_def str_simps token_defs)
  with a b entry_tokenizer [OF a b, of "str ''[1|a]%28:3|{[1|b]%28:2|1,[1|c]%28:#0},[1|d]%28:0''"]
  show ?thesis by (simp add: str_simps token_defs)
qed

subsection \<open>Numbers\<close>


lemma times_sign_simps:
  "times_sign 1 n = n" "times_sign (- 1) (Num s m) = Num (\<not> s) m"
  by (cases n) (simp_all add: times_sign_def)

lemma slice_0_1_Cons: "slice (c # cs) 0 1 = [c]"
  by (simp add: slice_def clamp_index_def)

lemma slice_from_1_Cons: "slice_from (c # cs) 1 = cs"
  by (simp add: slice_from_def clamp_index_def)

lemma decimal_host_parse:
  "stringToNumber decimal_host (numberToString decimal_host m) = Num False m"
  using nat_toString_digits [of m]
  by (simp add: decimal_host_def nat_toString_nonempty decimal_value_nat_toString list_all_iff)

lemma digits_not_NaN: "\<forall>c \<in> set s. isDigit c \<Longrightarrow> s \<noteq> str ''NaN''"
  by (auto simp: str_def isDigit_def)

lemma digits_not_minus:
  assumes "\<forall>c \<in> set s. isDigit c" shows "slice s 0 1 \<noteq> str ''-''"
proof (cases s)
  case Nil
  then show ?thesis by (simp add: slice_def str_def)
next
  case (Cons c cs)
  with assms have "isDigit c" by simp
  then have "c \<noteq> of_char CHR ''-''" by (auto simp: isDigit_def)
  with Cons show ?thesis by (simp add: slice_0_1_Cons str_def)
qed

text \<open>
  C9. On a host whose \<open>Number\<close> reads back what \<open>toString\<close> writes for a magnitude
  (as ECMAScript requires), and whose \<open>toString\<close> of a magnitude neither is \<open>NaN\<close> nor
  starts with a minus sign, decoding the encoded payload of any number \<open>n\<close> gives \<open>n\<close>
  back up to \<open>Object.is\<close>, which is the equality of \<open>jsnum\<close>: \<open>NaN\<close> comes back as
  \<open>NaN\<close>, and the sign of a zero is kept.
\<close>

theorem number_round_trip:
  assumes parse: "\<And>m. stringToNumber H (numberToString H m) = Num False m"
    and not_nan: "\<And>m. numberToString H m \<noteq> str ''NaN''"
    and not_minus: "\<And>m. slice (numberToString H m) 0 1 \<noteq> str ''-''"
  shows "deserializeNumber H (serializeNumber H n) = n"
proof (cases n)
  case NaN
  then show ?thesis by (simp add: serializeNumber_def deserializeNumber_def)
next
  case (Num negative m)
  show ?thesis
  proof (cases negative)
    case False
    with Num have "serializeNumber H n = numberToString H m"
      by (auto simp: serializeNumber_def greater_than_zero_def is_positive_zero_def Math_abs_def EMPTY_def)
    with Num False parse not_nan not_minus show ?thesis
      by (simp add: deserializeNumber_def times_sign_simps)
  next
    case True
    with Num have s: "serializeNumber H n = str ''-'' @ numberToString H m"
      by (auto simp: serializeNumber_def greater_than_zero_def is_positive_zero_def Math_abs_def)
    have m: "str ''-'' @ numberToString H m = of_char CHR ''-'' # numberToString H m"
      by (simp add: str_def)
    have "of_char CHR ''-'' # numberToString H m \<noteq> str ''NaN''"
      by (simp add: str_def)
    with Num True parse s m show ?thesis
      by (simp add: deserializeNumber_def slice_0_1_Cons slice_from_1_Cons times_sign_simps)
  qed
qed

theorem number_round_trip_witness:
  "deserializeNumber decimal_host (serializeNumber decimal_host (Num True 0)) = Num True 0
   \<and> deserializeNumber decimal_host (serializeNumber decimal_host (Num False 0)) = Num False 0
   \<and> deserializeNumber decimal_host (serializeNumber decimal_host NaN) = NaN
   \<and> deserializeNumber decimal_host (serializeNumber decimal_host (Num True 1024)) = Num True 1024"
proof -
  have a: "\<And>m. stringToNumber decimal_host (numberToString decimal_host m) = Num False m"
    by (rule decimal_host_parse)
  have b: "\<And>m. numberToString decimal_host m \<noteq> str ''NaN''"
    using nat_toString_digits by (simp add: decimal_host_def digits_not_NaN)
  have c: "\<And>m. slice (numberToString decimal_host m) 0 1 \<noteq> str ''-''"
    using nat_toString_digits by (simp add: decimal_host_def digits_not_minus)
  show ?thesis
    using number_round_trip [OF a b c] by simp
qed

subsection \<open>Reference pointers in the deserializer\<close>









lemma setupDependencies_references:
  "setupDependencies serialized0 provided st0 = Inr (serialized, st) \<Longrightarrow>
   references (self st) = references (self st0)"
  unfolding setupDependencies_def Let_def
  by (auto split: if_splits sum.splits)

text \<open>An exception of a nested call is not caught: the enclosing call throws.\<close>

lemma forEach_entry_needs_key:
  "forEach_entry rec inner a ((key, val) # rest) st = Inr st' \<Longrightarrow> \<exists>k st1. rec key st = Inr (k, st1)"
  by (auto split: sum.splits option.splits)

lemma forEach_entry_needs_value:
  "forEach_entry rec inner a ((key, val) # rest) st = Inr st' \<Longrightarrow> rec key st = Inr (k, st1) \<Longrightarrow>
   \<exists>v st2. rec val st1 = Inr (v, st2)"
  by (auto split: sum.splits option.splits)


subsection \<open>An exception of a nested call reaches the caller\<close>









subsection \<open>Runs of the serializer and of the deserializer\<close>


lemma wipe_same: "wipe cfg st = new_Serializer cfg"
  by (cases st) (simp add: wipe_def new_Serializer_def)

lemma serialize_starts_wiped:
  "serialize H h v st = serialize H h v (new_Serializer (config st))"
  by (simp add: serialize_def serialize_pass_def wipe_same new_Serializer_def)

lemma clean_unreferenced_set: "clean (str ''@0=6|{}'') = str ''6|{}''"
  by code_simp

lemma block_info_empty_set:
  "SerializedBlockInfo (str ''6|{}'')
     = Inr \<lparr>reference = None, descriptor = None, accessability = None, type = ShorthandType_SET,
            isKeyIndex_field = False, serializedValue = Some (str ''{}'')\<rparr>"
  by code_simp

lemma extractEntries_empty: "extractEntries (str ''{}'') = Inr []"
  by code_simp

lemma type_of_set:
  "\<not> isSingleton ShorthandType_SET" "isEntried ShorthandType_SET" "\<not> isCustom ShorthandType_SET"
  "ShorthandType_SET \<noteq> ShorthandType_OBJECT" "ShorthandType_SET \<noteq> ShorthandType_ARRAY"
  by code_simp+

lemma no_prelude_empty_set:
  "setupDependencies (str ''6|{}'') provided st = Inr (str ''6|{}'', st)"
  by (simp add: setupDependencies_def str_simps token_defs INDEX_NOT_FOUND_def starts_with_def)

text \<open>
  C2. For \<open>x = {}; x.self = x\<close> the serializer gives \<open>@0=3|{[1|self]%28:#0}\<close>: one
  reference declaration, \<open>@0=\<close>, and one pointer, \<open>#0\<close>. A new deserializer makes of
  that text one object \<open>y\<close> whose property \<open>self\<close> is \<open>y\<close> itself: the heap it leaves
  is the heap of \<open>x\<close>.
\<close>

theorem self_reference_round_trip:
  "returned (serialize (H :: nat host) self_referential (VObject 0) (new_Serializer default_configuration))
     = Inr (str ''@0=3|{[1|self]%28:#0}'')
   \<and> declaration_matches (str ''@0=3|{[1|self]%28:#0}'') = [str ''@0='']
   \<and> occurrences [REFERENCE_DECLARARION_S] (str ''@0=3|{[1|self]%28:#0}'') = 1
   \<and> occurrences (str ''#0'') (str ''@0=3|{[1|self]%28:#0}'') = 1
   \<and> occurrences [REFERENCE_POINTER] (str ''@0=3|{[1|self]%28:#0}'') = 1
   \<and> outcome (deserialize H (str ''@0=3|{[1|self]%28:#0}'') [] (fresh_machine []))
     = Inr (VObject 0, self_referential)
   \<and> get_property (self_referential :: nat heap) (VObject 0) (str ''self'') = Some (VObject 0)"
  by code_simp

text \<open>
  C1, at a value that does not come back. The serializer writes the well-known symbol of
  index 0 as \<open>7|0\<close>; the deserializer has no branch for the type \<open>7\<close> and throws on
  that text.
\<close>

theorem symbol_not_decoded:
  "returned (serialize decimal_host [] (VSymbol (Some 0)) (new_Serializer default_configuration))
     = Inr (str ''7|0'')
   \<and> returned (deserialize decimal_host (str ''7|0'') [] (fresh_machine []))
     = Inl (DeserializerError (UnknownType (str ''7'')))"
  by code_simp

text \<open>
  C5, at inputs where no flag is applied. An accessibility flag before the entries
  (\<open>3|%1:{}\<close>, frozen) is skipped and the object comes out extensible; before the type
  (\<open>%1:3|{}\<close>) it is read as part of an unknown type. A frozen empty object is written
  without any flag, as \<open>3|{}\<close>, and read back extensible.
\<close>

theorem accessibility_not_applied:
  "outcome (deserialize decimal_host (str ''3|%1:{}'') [] (fresh_machine []))
     = Inr (VObject 0, [\<lparr>kind = PlainObject, props = [], extensible = True\<rparr>])
   \<and> returned (deserialize decimal_host (str ''%1:3|{}'') [] (fresh_machine []))
     = Inl (DeserializerError (UnknownType (str ''%1:3'')))
   \<and> returned (serialize decimal_host [\<lparr>kind = PlainObject, props = [], extensible = False\<rparr>]
        (VObject 0) (new_Serializer default_configuration)) = Inr (str ''3|{}'')
   \<and> outcome (deserialize decimal_host (str ''3|{}'') [] (fresh_machine []))
     = Inr (VObject 0, [\<lparr>kind = PlainObject, props = [], extensible = True\<rparr>])"
  by code_simp

text \<open>
  C6, at two calls on one \<open>Deserializer\<close>. On a new instance \<open>deserialize("#0")\<close>
  throws; after a call that bound the id 0, the same call returns the string bound then.
\<close>

theorem deserializer_keeps_references:
  "returned (deserialize decimal_host (str ''#0'') [] (fresh_machine []))
     = Inl (DeserializerError (ReferenceNotInitialized 0))
   \<and> (case deserialize decimal_host (str ''3|{[@0=1|a]%28:#0}'') [] (fresh_machine []) of
        Inl e \<Rightarrow> Inl e
      | Inr (v, st) \<Rightarrow> returned (deserialize decimal_host (str ''#0'') [] st))
     = Inr (VString (str ''a''))"
  by code_simp

text \<open>
  C10. For a \<open>Set\<close> with no own enumerable property, whatever its elements, \<open>entries\<close>
  is empty, \<open>serialize\<close> gives \<open>6|{}\<close>, and a new deserializer makes an empty \<open>Set\<close>
  of that text: the elements are dropped.
\<close>

theorem set_elements_dropped:
  assumes "a < length h" and "kind (h ! a) = SetObject elements"
    and "Object_entries (h ! a) = []" and "\<not> Metadata (config st)"
  shows "entries (h ! a) = []
     \<and> returned (serialize H h (VObject a) st) = Inr (str ''6|{}'')
     \<and> outcome (deserialize H (str ''6|{}'') provided (fresh_machine h'))
       = Inr (VObject (length h'), h' @ [new_object (SetObject [])])"
proof (intro conjI)
  show e: "entries (h ! a) = []" using assms by (simp add: entries_def)
  have c: "constructor_of h (VObject a) = Some SetConstructor"
    using assms by (simp add: constructor_of_def constructor_of_kind_def)
  let ?st = "new_Serializer (config st) :: 'a serializer"
  have "serialize_pass H h (VObject a) st
      = Inr (str ''@0=6|{}'', ?st\<lparr>reference_value_map := [(VObject a, 0)], reference_ids := 1, ticks := 1\<rparr>)"
    using assms c e
    by (simp add: serialize_pass_def wipe_same mark_def new_Serializer_def is_zero_def
        serialize_value_def serializeObject_def EMPTY_def ShorthandType_SET_def str_simps token_defs
        nat_toString.simps digit_char_def)
  then show "returned (serialize H h (VObject a) st) = Inr (str ''6|{}'')"
    using assms by (simp add: serialize_def wipe_same new_Serializer_def clean_unreferenced_set
        returned_def EMPTY_def)
  show "outcome (deserialize H (str ''6|{}'') provided (fresh_machine h'))
       = Inr (VObject (length h'), h' @ [new_object (SetObject [])])"
    by (simp add: deserialize_def no_prelude_empty_set deserialize_block_def block_info_empty_set
        type_of_set allocate_holder_def emptyEntriesHolder_def allocate_def fresh_machine_def
        deserialize_payload_def deserializeEntried_def extractEntries_empty outcome_def Let_def)
qed

theorem set_elements_dropped_witness:
  "entries (\<lparr>kind = SetObject [VNumber (Num False (1::nat)), VString (str ''x'')], props = [],
             extensible = True\<rparr>) = []
   \<and> returned (serialize decimal_host
        [\<lparr>kind = SetObject [VNumber (Num False 1), VString (str ''x'')], props = [], extensible = True\<rparr>]
        (VObject 0) (new_Serializer default_configuration)) = Inr (str ''6|{}'')
   \<and> outcome (deserialize decimal_host (str ''6|{}'') [] (fresh_machine []))
       = Inr (VObject 0, [new_object (SetObject [])])"
  using set_elements_dropped [where a = 0
      and h = "[\<lparr>kind = SetObject [VNumber (Num False (1::nat)), VString (str ''x'')], props = [],
                 extensible = True\<rparr>]"
      and elements = "[VNumber (Num False 1), VString (str ''x'')]"
      and st = "new_Serializer default_configuration" and H = decimal_host and provided = "[]"
      and h' = "[]"]
  by (simp add: Object_entries_def new_Serializer_def default_configuration_def)

subsection \<open>Digits and the tokens of a reference\<close>


lemma token_facts:
  "\<not> isDigit REFERENCE_DECLARARION_S" "\<not> isDigit REFERENCE_POINTER" "\<not> isDigit REFERENCE_DECLARATION_E"
  "REFERENCE_DECLARARION_S \<noteq> REFERENCE_POINTER" "REFERENCE_DECLARARION_S \<noteq> REFERENCE_DECLARATION_E"
  "REFERENCE_POINTER \<noteq> REFERENCE_DECLARATION_E"
  by (simp_all add: isDigit_def token_defs)

lemma digits_no_token:
  "\<forall>c \<in> set ds. isDigit c \<Longrightarrow> REFERENCE_DECLARARION_S \<notin> set ds \<and> REFERENCE_POINTER \<notin> set ds
     \<and> REFERENCE_DECLARATION_E \<notin> set ds"
  using token_facts by auto



subsection \<open>The scans of \<open>clean\<close> over safe text\<close>














subsection \<open>The scans of \<open>clean\<close> over a cut text\<close>

lemma render_simps [simp]:
  "render [] = []" "render (x # rest) = render_item x @ render rest"
  "render (xs @ ys) = render xs @ render ys"
  by (simp_all add: render_def)










subsection \<open>A step of \<open>clean\<close> on a cut text\<close>







subsection \<open>The fold of \<open>clean\<close>\<close>

















subsection \<open>What \<open>clean\<close> makes of a cut text\<close>








subsection \<open>The shape of the encoder's text\<close>

lemma plain_simps [simp]:
  "plain []"
  "plain (c # t) \<longleftrightarrow> c \<noteq> REFERENCE_DECLARARION_S \<and> c \<noteq> REFERENCE_POINTER \<and> plain t"
  "plain (a @ b) \<longleftrightarrow> plain a \<and> plain b"
  by (auto simp: plain_def)

lemma plain_digits: "\<forall>c \<in> set ds. isDigit c \<Longrightarrow> plain ds"
  using digits_no_token [of ds] by (simp add: plain_def)

lemma plain_nat_toString [simp]: "plain (nat_toString n)"
  by (rule plain_digits) (rule nat_toString_digits)

lemma plain_escape_char: "plain (escape_char c)"
proof (cases "c \<in> set RESERVED_CHARACTERS")
  case True
  then show ?thesis by (simp add: escape_char_def token_defs)
next
  case False
  moreover have "REFERENCE_DECLARARION_S \<in> set RESERVED_CHARACTERS"
    "REFERENCE_POINTER \<in> set RESERVED_CHARACTERS"
    by (simp_all add: RESERVED_CHARACTERS_def str_simps token_defs)
  ultimately have "c \<noteq> REFERENCE_DECLARARION_S" "c \<noteq> REFERENCE_POINTER" by auto
  with False show ?thesis by (simp add: escape_char_def)
qed

lemma plain_escape [simp]: "plain (escape s)"
  unfolding escape_def by (induction s) (simp_all add: plain_escape_char)

lemma plain_tokens [simp]:
  "TYPE_SEPERATOR \<noteq> REFERENCE_DECLARARION_S" "TYPE_SEPERATOR \<noteq> REFERENCE_POINTER"
  "KEY_INDEX_S \<noteq> REFERENCE_DECLARARION_S" "KEY_INDEX_S \<noteq> REFERENCE_POINTER"
  "KEY_INDEX_E \<noteq> REFERENCE_DECLARARION_S" "KEY_INDEX_E \<noteq> REFERENCE_POINTER"
  "PROPERTY_ACCESSABILITY \<noteq> REFERENCE_DECLARARION_S" "PROPERTY_ACCESSABILITY \<noteq> REFERENCE_POINTER"
  "KEY_VALUE_SEPERATOR \<noteq> REFERENCE_DECLARARION_S" "KEY_VALUE_SEPERATOR \<noteq> REFERENCE_POINTER"
  "ENTRY_SEPERATOR \<noteq> REFERENCE_DECLARARION_S" "ENTRY_SEPERATOR \<noteq> REFERENCE_POINTER"
  "ENTRIED_VALUE_S \<noteq> REFERENCE_DECLARARION_S" "ENTRIED_VALUE_S \<noteq> REFERENCE_POINTER"
  "ENTRIED_VALUE_E \<noteq> REFERENCE_DECLARARION_S" "ENTRIED_VALUE_E \<noteq> REFERENCE_POINTER"
  "TYPE_CUSTOM_CLASS_SPECIFIER \<noteq> REFERENCE_DECLARARION_S" "TYPE_CUSTOM_CLASS_SPECIFIER \<noteq> REFERENCE_POINTER"
  by (simp_all add: token_defs)

lemma plain_shorthand [simp]:
  "plain ShorthandType_NULL" "plain ShorthandType_STRING" "plain ShorthandType_NUMBER"
  "plain ShorthandType_OBJECT" "plain ShorthandType_ARRAY" "plain ShorthandType_MAP"
  "plain ShorthandType_SET" "plain ShorthandType_SYMBOL" "plain ShorthandType_BOOLEAN"
  "plain ShorthandType_FUNCTION" "plain ShorthandType_UNDEFINED" "plain ShorthandType_BIGINT"
  "plain ShorthandType_DATE"
  by (simp_all add: shorthand_defs str_simps token_defs)

lemma plain_serializeBoolean [simp]: "plain (serializeBoolean b)"
  by (simp add: serializeBoolean_def SerializedBoolean_TRUE_def SerializedBoolean_FALSE_def str_simps
      token_defs)

lemma plain_serializeBigint [simp]: "plain (serializeBigint i)"
  by (simp add: serializeBigint_def str_simps token_defs)



lemma text_safe_append [simp]: "text_safe (xs @ ys) \<longleftrightarrow> text_safe xs \<and> text_safe ys"
proof (induction xs)
  case Nil
  show ?case by simp
next
  case (Cons x xs)
  then show ?case by (cases x) auto
qed

lemma text_safe_Txt: "text_safe (Txt t # rest) \<longleftrightarrow> plain t \<and> text_safe rest"
  by (simp add: plain_def)

lemma decls_of_append [simp]: "decls_of (xs @ ys) = decls_of xs @ decls_of ys"
proof (induction xs)
  case Nil
  show ?case by simp
next
  case (Cons x xs)
  then show ?case by (cases x) simp_all
qed

lemma ptrs_of_append [simp]: "ptrs_of (xs @ ys) = ptrs_of xs @ ptrs_of ys"
proof (induction xs)
  case Nil
  show ?case by simp
next
  case (Cons x xs)
  then show ?case by (cases x) simp_all
qed




lemma not_digit_tokens:
  "\<not> isDigit ENTRIED_VALUE_E" "\<not> isDigit ENTRIED_VALUE_S" "\<not> isDigit KEY_INDEX_S"
  "\<not> isDigit KEY_INDEX_E" "\<not> isDigit KEY_VALUE_SEPERATOR" "\<not> isDigit ENTRY_SEPERATOR"
  by (simp_all add: isDigit_def token_defs)

lemma closable_simps [simp]:
  "closable []" "closable (Txt t # xs) = closable xs" "closable (Decl i # xs) = closable xs"
  "closable [Ptr i]"
  by (simp_all add: closable_def starts_text_def not_digit_tokens)





subsection \<open>The encoder keeps the shape\<close>







lemma encodes_shape:
  "encodes shape st r \<Longrightarrow> (\<And>items. shape items \<Longrightarrow> shape' items) \<Longrightarrow> encodes shape' st r"
  unfolding encodes_def by blast



lemma encodes_state:
  "encodes shape st (s, st') \<Longrightarrow> config st' = config st \<and> known_ids st'"
  by (simp add: encodes_def)







subsection \<open>\<open>#serialize\<close> keeps the shape\<close>









end
